theory Spec2Isabelle
  imports Main "HOL-Library.Word" "HOL-Library.Code_Target_Nat"
begin

unbundle bit_operations_syntax

section \<open>Records of the failure-recovery path (messaging/errorQueue.js)\<close>

text \<open>
  Counts and millisecond values are natural numbers; instants (\<open>Date.now()\<close>, ISO
  timestamps) are milliseconds since the epoch. An absent (\<open>undefined\<close> or \<open>null\<close>)
  property is \<open>None\<close>.
\<close>

type_synonym headers = "(string \<times> string) list"

text \<open>The raw broker message inside \<open>messageData.message\<close>.\<close>

record raw_message =
  rm_partition :: "nat option"
  rm_offset :: "string option"
  rm_key :: "string option"
  rm_value :: "string option"
  rm_headers :: "headers option"
  rm_content :: "string option"
  rm_properties :: "headers option"
  rm_fields :: "headers option"

record message_data =
  md_topic :: "string option"
  md_queue :: "string option"
  md_message :: raw_message
  md_error :: string
  md_retryCount :: "nat option"

datatype original_message =
    KafkaOriginal "string option" "nat option" "string option" "string option" "string option" headers
  | RabbitOriginal "string option" "string option" headers headers

record error_message =
  em_source :: string
  em_timestamp :: nat
  em_error :: string
  em_retryCount :: nat
  em_originalMessage :: original_message

record retry_message = error_message +
  retryAt :: nat
  retryDelay :: nat

record dlq_message = error_message +
  movedToDLQ :: nat
  finalStatus :: string

section \<open>Broker adapters as their callers see them (config/kafka.js, config/rabbitmq.js)\<close>

text \<open>What is handed to a publish function: application content, or one of the two records
  of the recovery path.\<close>

datatype payload = Message string | RetryPayload retry_message | DeadLetterPayload dlq_message

text \<open>The \<open>queueOptions\<close> that a caller passes; a property it leaves out is \<open>None\<close>.\<close>

record queue_options =
  deadLetterExchange :: "string option"
  deadLetterRoutingKey :: "string option"
  messageTtl :: "nat option"
  durable :: "bool option"

definition no_queue_options :: queue_options where
  "no_queue_options = \<lparr> deadLetterExchange = None, deadLetterRoutingKey = None,
     messageTtl = None, durable = None \<rparr>"

text \<open>The calls that reached a broker: a Kafka send (topic, value, key, headers), the
  assertion of an exchange (name, type) or of a queue (name, options as sent), and a
  RabbitMQ publish (exchange, routing key, content, message options).\<close>

datatype broker_call =
    KafkaPublish string payload "string option" headers
  | AssertExchange string string
  | AssertQueue string queue_options
  | RabbitPublish string string payload headers

text \<open>\<open>producer\<close> of config/kafka.js and \<open>producerChannel\<close> of config/rabbitmq.js are either
  set or null. A publish throws when its producer is null; an error that the broker
  raises takes the same path through the callers.\<close>

record broker =
  producer :: bool
  producerChannel :: bool
  broker_calls :: "broker_call list"

datatype js_error = Error string | RangeError string

text \<open>\<open>x || d\<close> on an optional string: absent and empty are falsy.\<close>

definition or_else :: "string option \<Rightarrow> string \<Rightarrow> string" where
  "or_else x d = (case x of None \<Rightarrow> d | Some v \<Rightarrow> if v = [] then d else v)"

text \<open>\<open>publishMessage\<close> of config/kafka.js.\<close>

definition publishMessage ::
  "string \<Rightarrow> payload \<Rightarrow> string option \<Rightarrow> headers \<Rightarrow> 'a broker_scheme
   \<Rightarrow> js_error + 'a broker_scheme" where
  "publishMessage topic message key hs b =
     (if \<not> producer b then Inl (Error ''Kafka producer not initialized'')
      else Inr (b\<lparr>broker_calls := broker_calls b @ [KafkaPublish topic message key hs]\<rparr>))"

text \<open>\<open>assertExchange\<close> and \<open>assertQueue\<close> of config/rabbitmq.js. The queue is asserted with
  \<open>{durable: true, ...options}\<close>: durable unless the caller says otherwise.\<close>

definition assertExchange :: "string \<Rightarrow> string \<Rightarrow> 'a broker_scheme \<Rightarrow> 'a broker_scheme" where
  "assertExchange exchange exchangeType b =
     b\<lparr>broker_calls := broker_calls b @ [AssertExchange exchange exchangeType]\<rparr>"

definition assertQueue :: "string \<Rightarrow> queue_options \<Rightarrow> 'a broker_scheme \<Rightarrow> 'a broker_scheme" where
  "assertQueue queue queueOptions b =
     b\<lparr>broker_calls := broker_calls b @
        [AssertQueue queue
           (queueOptions\<lparr>durable :=
              Some (case durable queueOptions of None \<Rightarrow> True | Some d \<Rightarrow> d)\<rparr>)]\<rparr>"

text \<open>\<open>publishMessage\<close> of config/rabbitmq.js, under the name the controller imports it
  by: a named exchange is asserted first, with type \<open>options.exchangeType || 'topic'\<close>.
  \<open>publishToQueue\<close> asserts the queue and publishes to the default exchange with the
  queue name as routing key.\<close>

definition publishToRabbitMQ ::
  "string \<Rightarrow> string \<Rightarrow> payload \<Rightarrow> string option \<Rightarrow> headers \<Rightarrow> 'a broker_scheme
   \<Rightarrow> js_error + 'a broker_scheme" where
  "publishToRabbitMQ exchange routingKey message exchangeType messageOptions b =
     (if \<not> producerChannel b then Inl (Error ''RabbitMQ producer channel not initialized'')
      else (let b1 = (if exchange \<noteq> []
                      then assertExchange exchange (or_else exchangeType ''topic'') b else b)
            in Inr (b1\<lparr>broker_calls := broker_calls b1 @
                         [RabbitPublish exchange routingKey message messageOptions]\<rparr>)))"

definition publishToQueue ::
  "string \<Rightarrow> payload \<Rightarrow> queue_options \<Rightarrow> string option \<Rightarrow> headers \<Rightarrow> 'a broker_scheme
   \<Rightarrow> js_error + 'a broker_scheme" where
  "publishToQueue queue message queueOptions exchangeType messageOptions b =
     (if \<not> producerChannel b then Inl (Error ''RabbitMQ producer channel not initialized'')
      else publishToRabbitMQ [] queue message exchangeType messageOptions
             (assertQueue queue queueOptions b))"

section \<open>Failure recovery (messaging/errorQueue.js)\<close>

text \<open>Decimal rendering of a number, as \<open>toString\<close> and template literals give it.\<close>

definition digit_char :: "nat \<Rightarrow> char" where
  "digit_char d = char_of (48 + d)"

function decimal :: "nat \<Rightarrow> string" where
  "decimal n = (if n < 10 then [digit_char n] else decimal (n div 10) @ [digit_char (n mod 10)])"
  by pat_completeness auto
termination
  by (relation "measure id") auto

text \<open>The configuration read from the environment. \<open>MAX_RETRIES\<close> is
  \<open>parseInt(process.env.MAX_RETRIES || '3')\<close>; \<open>None\<close> stands for \<open>NaN\<close>.\<close>

record env =
  MAX_RETRIES :: "int option"
  RETRY_TOPIC :: string
  RETRY_QUEUE :: string
  DLQ_TOPIC :: string
  DLQ_QUEUE :: string

definition default_env :: env where
  "default_env = \<lparr> MAX_RETRIES = Some 3, RETRY_TOPIC = ''streambridge.retry'',
     RETRY_QUEUE = ''streambridge.retry'', DLQ_TOPIC = ''streambridge.dlq'',
     DLQ_QUEUE = ''streambridge.dlq'' \<rparr>"

text \<open>The module imports the Kafka publish function as \<open>publishToKafka\<close> and calls it with
  topic and message only.\<close>

definition publishToKafka ::
  "string \<Rightarrow> payload \<Rightarrow> 'a broker_scheme \<Rightarrow> js_error + 'a broker_scheme" where
  "publishToKafka topic message b = publishMessage topic message None [] b"

text \<open>\<open>retryCount < MAX_RETRIES\<close>; a comparison with \<open>NaN\<close> is false.\<close>

definition below_max :: "nat \<Rightarrow> int option \<Rightarrow> bool" where
  "below_max n m = (case m of None \<Rightarrow> False | Some k \<Rightarrow> int n < k)"

definition original_queue :: "original_message \<Rightarrow> string option" where
  "original_queue om =
     (case om of RabbitOriginal q _ _ _ \<Rightarrow> q | KafkaOriginal _ _ _ _ _ _ \<Rightarrow> None)"

definition retryDelayMs :: "error_message \<Rightarrow> nat" where
  "retryDelayMs errorMessage = 2 ^ em_retryCount errorMessage * 1000"

text \<open>\<open>new Date(t).toISOString()\<close>: the time value of a \<open>Date\<close> is at most 8.64e15 ms; for a
  later instant the date is invalid and \<open>toISOString\<close> throws a \<open>RangeError\<close>.\<close>

definition MAX_TIME_VALUE :: nat where
  "MAX_TIME_VALUE = 8640000000000000"

definition toISOString :: "nat \<Rightarrow> js_error + nat" where
  "toISOString t = (if t \<le> MAX_TIME_VALUE then Inr t else Inl (RangeError ''Invalid time value''))"

text \<open>\<open>retryAt\<close> is computed before anything is sent. The retry queue is asserted with the
  dead-letter exchange \<open>''\<close>, the original queue as dead-letter routing key and the delay
  as message TTL.\<close>

definition sendToRetryQueue ::
  "env \<Rightarrow> nat \<Rightarrow> string \<Rightarrow> error_message \<Rightarrow> 'a broker_scheme \<Rightarrow> js_error + 'a broker_scheme" where
  "sendToRetryQueue e now source errorMessage b =
     (let delay = retryDelayMs errorMessage
      in case toISOString (now + delay) of
           Inl err \<Rightarrow> Inl err
         | Inr instant \<Rightarrow>
             (let retryMessage = error_message.extend errorMessage
                    (retry_message.fields instant delay)
              in if source = ''kafka''
                 then publishToKafka (RETRY_TOPIC e) (RetryPayload retryMessage) b
                 else publishToQueue (RETRY_QUEUE e) (RetryPayload retryMessage)
                        \<lparr> deadLetterExchange = Some [],
                          deadLetterRoutingKey = original_queue (em_originalMessage errorMessage),
                          messageTtl = Some delay, durable = None \<rparr>
                        None [(''expiration'', decimal delay)] b))"

definition sendToDeadLetterQueue ::
  "env \<Rightarrow> nat \<Rightarrow> string \<Rightarrow> error_message \<Rightarrow> 'a broker_scheme \<Rightarrow> js_error + 'a broker_scheme" where
  "sendToDeadLetterQueue e now source errorMessage b =
     (let dlqMessage = error_message.extend errorMessage (dlq_message.fields now ''failed'')
      in if source = ''kafka''
         then publishToKafka (DLQ_TOPIC e) (DeadLetterPayload dlqMessage) b
         else publishToQueue (DLQ_QUEUE e) (DeadLetterPayload dlqMessage)
                (no_queue_options\<lparr>durable := Some True\<rparr>) None [] b)"

definition or_empty :: "headers option \<Rightarrow> headers" where
  "or_empty h = (case h of None \<Rightarrow> [] | Some x \<Rightarrow> x)"

definition build_error_message :: "nat \<Rightarrow> string \<Rightarrow> message_data \<Rightarrow> error_message" where
  "build_error_message now source messageData =
     \<lparr> em_source = source,
       em_timestamp = now,
       em_error = md_error messageData,
       em_retryCount = (case md_retryCount messageData of None \<Rightarrow> 0 | Some n \<Rightarrow> n),
       em_originalMessage =
         (let m = md_message messageData in
          if source = ''kafka''
          then KafkaOriginal (md_topic messageData) (rm_partition m) (rm_offset m)
                 (rm_key m) (rm_value m) (or_empty (rm_headers m))
          else RabbitOriginal (md_queue messageData) (rm_content m)
                 (or_empty (rm_properties m)) (or_empty (rm_fields m))) \<rparr>"

text \<open>\<open>handleFailedMessage\<close> catches whatever the two senders throw and answers
  \<open>false\<close>. The record is stamped at \<open>t0\<close>, the sender reads the clock again at \<open>t1\<close>.\<close>

definition handleFailedMessage ::
  "env \<Rightarrow> nat \<Rightarrow> nat \<Rightarrow> string \<Rightarrow> message_data \<Rightarrow> 'a broker_scheme \<Rightarrow> bool \<times> 'a broker_scheme" where
  "handleFailedMessage e t0 t1 source messageData b =
     (let errorMessage = build_error_message t0 source messageData
      in if below_max (em_retryCount errorMessage) (MAX_RETRIES e)
         then (case sendToRetryQueue e t1 source
                      (errorMessage\<lparr>em_retryCount := em_retryCount errorMessage + 1\<rparr>) b of
                 Inr b' \<Rightarrow> (True, b')
               | Inl err \<Rightarrow> (False, b))
         else (case sendToDeadLetterQueue e t1 source errorMessage b of
                 Inr b' \<Rightarrow> (True, b')
               | Inl err \<Rightarrow> (False, b)))"

text \<open>What the calls put on the brokers: destination (topic, or routing key) and payload
  of every publish, in order.\<close>

fun publish_of :: "broker_call \<Rightarrow> (string \<times> payload) list" where
  "publish_of (KafkaPublish topic message key hs) = [(topic, message)]"
| "publish_of (AssertExchange exchange exchangeType) = []"
| "publish_of (AssertQueue queue queueOptions) = []"
| "publish_of (RabbitPublish exchange routingKey message messageOptions) = [(routingKey, message)]"

definition published :: "'a broker_scheme \<Rightarrow> (string \<times> payload) list" where
  "published b = concat (map publish_of (broker_calls b))"

text \<open>Each publish with its destination, its kind and the \<open>retryCount\<close> it carries.\<close>

datatype routed = ToRetry nat | ToDLQ nat | Plain

definition route_of :: "string \<times> payload \<Rightarrow> string \<times> routed" where
  "route_of p =
     (fst p,
      case snd p of
        RetryPayload r \<Rightarrow> ToRetry (em_retryCount r)
      | DeadLetterPayload d \<Rightarrow> ToDLQ (em_retryCount d)
      | Message m \<Rightarrow> Plain)"

definition retry_delays :: "'a broker_scheme \<Rightarrow> nat list" where
  "retry_delays b =
     concat (map (\<lambda>p. case snd p of RetryPayload r \<Rightarrow> [retryDelay r] | _ \<Rightarrow> [])
               (published b))"

section \<open>Failure paths of the consumers (config/kafka.js, config/rabbitmq.js)\<close>

text \<open>
  The two places that call \<open>handleFailedMessage\<close>. The \<open>catch\<close> block of \<open>eachMessage\<close>
  (Kafka) passes an object with the properties \<open>topic\<close>, \<open>message\<close> and \<open>error\<close>; the
  \<open>catch\<close> block of the \<open>consume\<close> callback (RabbitMQ) passes \<open>queue\<close>, \<open>message\<close> and
  \<open>error\<close>, and acknowledges the message afterwards. Neither object has a \<open>retryCount\<close>.
  \<open>handleFailedMessage\<close> does not throw, so the inner \<open>catch\<close> of the RabbitMQ block, which
  would reject the message, is not reached.
\<close>

definition eachMessage_catch ::
  "env \<Rightarrow> nat \<Rightarrow> nat \<Rightarrow> string \<Rightarrow> raw_message \<Rightarrow> string \<Rightarrow> 'a broker_scheme
   \<Rightarrow> bool \<times> 'a broker_scheme" where
  "eachMessage_catch e t0 t1 topic message err b =
     handleFailedMessage e t0 t1 ''kafka''
       \<lparr> md_topic = Some topic, md_queue = None, md_message = message, md_error = err,
         md_retryCount = None \<rparr> b"

datatype settlement = Ack | Nack bool

definition consume_catch ::
  "env \<Rightarrow> nat \<Rightarrow> nat \<Rightarrow> string \<Rightarrow> raw_message \<Rightarrow> string \<Rightarrow> 'a broker_scheme
   \<Rightarrow> settlement \<times> 'a broker_scheme" where
  "consume_catch e t0 t1 queue msg err b =
     (let (handled, b') = handleFailedMessage e t0 t1 ''rabbitmq''
            \<lparr> md_topic = None, md_queue = Some queue, md_message = msg, md_error = err,
              md_retryCount = None \<rparr> b
      in (Ack, b'))"

text \<open>
  A handler that always fails, as the adapters see it: every delivery of the source ends
  in the \<open>catch\<close> block. A delivery is whatever the broker hands over: the message as it
  was first published, or the record that comes back to the original queue when its TTL
  on the retry queue has run out. \<open>fd_stamped\<close> and \<open>fd_sent\<close> are the two readings of the
  clock during the call.
\<close>

record failed_delivery =
  fd_message :: raw_message
  fd_error :: string
  fd_stamped :: nat
  fd_sent :: nat

fun eachMessage_failures ::
  "env \<Rightarrow> string \<Rightarrow> failed_delivery list \<Rightarrow> 'a broker_scheme \<Rightarrow> 'a broker_scheme" where
  "eachMessage_failures e topic [] b = b"
| "eachMessage_failures e topic (d # ds) b =
     eachMessage_failures e topic ds
       (snd (eachMessage_catch e (fd_stamped d) (fd_sent d) topic (fd_message d) (fd_error d) b))"

fun consume_failures ::
  "env \<Rightarrow> string \<Rightarrow> failed_delivery list \<Rightarrow> 'a broker_scheme \<Rightarrow> 'a broker_scheme" where
  "consume_failures e queue [] b = b"
| "consume_failures e queue (d # ds) b =
     consume_failures e queue ds
       (snd (consume_catch e (fd_stamped d) (fd_sent d) queue (fd_message d) (fd_error d) b))"

section \<open>Consumers (messaging/kafka/consumer.js, messaging/rabbitmq/consumer.js)\<close>

text \<open>The transaction id that the message handler of \<open>createConsumer\<close> computes for each
  message it is handed: \<open>kafka-${topic}-${message.offset}-${Date.now()}\<close> and
  \<open>rabbitmq-${queue}-${Date.now()}\<close>.\<close>

definition kafka_handler_transactionId :: "string \<Rightarrow> string \<Rightarrow> nat \<Rightarrow> string" where
  "kafka_handler_transactionId topic offset now =
     ''kafka-'' @ topic @ ''-'' @ offset @ ''-'' @ decimal now"

definition rabbitmq_handler_transactionId :: "string \<Rightarrow> nat \<Rightarrow> string" where
  "rabbitmq_handler_transactionId queue now = ''rabbitmq-'' @ queue @ ''-'' @ decimal now"

text \<open>A consumer handle is the object that the adapter returned; \<open>handle_id\<close> stands for
  its identity.\<close>

record consumer =
  handle_id :: nat
  consumer_group :: string
  consumer_source :: string

text \<open>
  \<open>createConsumer\<close> is an \<open>async\<close> function: a call runs up to its first \<open>await\<close> on a
  pending promise and goes on from there in a later turn of the event loop; other calls
  can run in between. After its first part a call has returned, has thrown, or waits
  (with what it holds at that point).
\<close>

datatype 'p call_state = Returned consumer | Threw js_error | Awaiting 'p

text \<open>
  The Kafka side: \<open>kafkaClient\<close> and the \<open>consumers\<close> array of config/kafka.js, and the
  \<open>activeConsumers\<close> map of messaging/kafka/consumer.js. \<open>kafka_reachable\<close> says whether
  connecting, subscribing and starting the consumer succeed; \<open>kafka_created\<close> counts the
  consumer objects made so far and gives each new object its identity.
\<close>

record kafka_state =
  kafkaClient :: bool
  kafka_reachable :: bool
  kafka_created :: nat
  consumers :: "consumer list"
  activeConsumers :: "string \<rightharpoonup> consumer"

text \<open>\<open>createConsumer\<close> of config/kafka.js, imported as \<open>createKafkaConsumer\<close>. Up to
  \<open>await consumer.connect()\<close> it checks the client and makes the consumer object;
  afterwards it connects, subscribes, starts the consumer and adds it to \<open>consumers\<close>.\<close>

definition createKafkaConsumer_begin ::
  "string \<Rightarrow> string \<Rightarrow> kafka_state \<Rightarrow> (js_error + consumer) \<times> kafka_state" where
  "createKafkaConsumer_begin groupId topic s =
     (if \<not> kafkaClient s then (Inl (Error ''Kafka client not initialized''), s)
      else (Inr \<lparr> handle_id = kafka_created s, consumer_group = groupId,
                   consumer_source = topic \<rparr>,
            s\<lparr>kafka_created := kafka_created s + 1\<rparr>))"

definition createKafkaConsumer_resume :: "consumer \<Rightarrow> kafka_state \<Rightarrow> js_error + kafka_state" where
  "createKafkaConsumer_resume c s =
     (if \<not> kafka_reachable s then Inl (Error ''connection error'')
      else Inr (s\<lparr>consumers := consumers s @ [c]\<rparr>))"

text \<open>\<open>options.groupId || `message-hub-${topic}-${Date.now()}`\<close>: an absent or empty
  group id is falsy.\<close>

definition kafka_groupId :: "string option \<Rightarrow> string \<Rightarrow> nat \<Rightarrow> string" where
  "kafka_groupId opt topic now =
     (case opt of
        None \<Rightarrow> ''message-hub-'' @ topic @ ''-'' @ decimal now
      | Some g \<Rightarrow> if g = [] then ''message-hub-'' @ topic @ ''-'' @ decimal now else g)"

text \<open>\<open>createConsumer\<close> of messaging/kafka/consumer.js, in two parts: what runs until
  \<open>await createKafkaConsumer(...)\<close> suspends the call (the look-up in \<open>activeConsumers\<close>,
  the group id, the synchronous part of the adapter call), and what runs when the call is
  resumed (the rest of the adapter call, then \<open>activeConsumers.set\<close>).\<close>

definition createConsumer_begin ::
  "string \<Rightarrow> string option \<Rightarrow> nat \<Rightarrow> kafka_state \<Rightarrow> consumer call_state \<times> kafka_state" where
  "createConsumer_begin topic groupId_option now s =
     (case activeConsumers s topic of
        Some existing \<Rightarrow> (Returned existing, s)
      | None \<Rightarrow>
          (case createKafkaConsumer_begin (kafka_groupId groupId_option topic now) topic s of
             (Inl err, s') \<Rightarrow> (Threw err, s')
           | (Inr c, s') \<Rightarrow> (Awaiting c, s')))"

definition createConsumer_resume ::
  "string \<Rightarrow> consumer call_state \<Rightarrow> kafka_state \<Rightarrow> (js_error + consumer) \<times> kafka_state" where
  "createConsumer_resume topic call s =
     (case call of
        Returned c \<Rightarrow> (Inr c, s)
      | Threw err \<Rightarrow> (Inl err, s)
      | Awaiting c \<Rightarrow>
          (case createKafkaConsumer_resume c s of
             Inl err \<Rightarrow> (Inl err, s)
           | Inr s' \<Rightarrow> (Inr c, s'\<lparr>activeConsumers := (activeConsumers s')(topic \<mapsto> c)\<rparr>)))"

text \<open>A call that no other call interleaves with.\<close>

definition createConsumer ::
  "string \<Rightarrow> string option \<Rightarrow> nat \<Rightarrow> kafka_state \<Rightarrow> (js_error + consumer) \<times> kafka_state" where
  "createConsumer topic groupId_option now s =
     (let (call, s') = createConsumer_begin topic groupId_option now s
      in createConsumer_resume topic call s')"

text \<open>Two calls for one topic, the second made while the first is waiting: both run their
  first part, then both are resumed, in the order they were made.\<close>

definition createConsumer_overlapping ::
  "string \<Rightarrow> string option \<Rightarrow> nat \<Rightarrow> string option \<Rightarrow> nat \<Rightarrow> kafka_state
   \<Rightarrow> (js_error + consumer) \<times> (js_error + consumer) \<times> kafka_state" where
  "createConsumer_overlapping topic g1 t1 g2 t2 s =
     (let (call1, s1) = createConsumer_begin topic g1 t1 s;
          (call2, s2) = createConsumer_begin topic g2 t2 s1;
          (result1, s3) = createConsumer_resume topic call1 s2;
          (result2, s4) = createConsumer_resume topic call2 s3
      in (result1, result2, s4))"

text \<open>
  The RabbitMQ side: \<open>connection\<close> and \<open>consumerChannels\<close> of config/rabbitmq.js and the
  \<open>activeConsumers\<close> map of messaging/rabbitmq/consumer.js. The handle is the consumer
  channel, which the connection makes after the first \<open>await\<close> of the adapter call
  (\<open>await connection.createChannel()\<close>); \<open>rabbitmq_created\<close> counts the channels made.
\<close>

record rabbitmq_state =
  connection :: bool
  rabbitmq_reachable :: bool
  rabbitmq_created :: nat
  consumerChannels :: "consumer list"
  activeQueueConsumers :: "string \<rightharpoonup> consumer"

definition createRabbitMQConsumer_begin :: "string \<Rightarrow> rabbitmq_state \<Rightarrow> js_error + unit" where
  "createRabbitMQConsumer_begin queue s =
     (if \<not> connection s then Inl (Error ''RabbitMQ connection not established'') else Inr ())"

definition createRabbitMQConsumer_resume ::
  "string \<Rightarrow> rabbitmq_state \<Rightarrow> js_error + (consumer \<times> rabbitmq_state)" where
  "createRabbitMQConsumer_resume queue s =
     (if \<not> rabbitmq_reachable s then Inl (Error ''channel error'')
      else (let c = \<lparr> handle_id = rabbitmq_created s, consumer_group = [],
                       consumer_source = queue \<rparr>
            in Inr (c, s\<lparr>rabbitmq_created := rabbitmq_created s + 1,
                         consumerChannels := consumerChannels s @ [c]\<rparr>)))"

text \<open>\<open>createConsumer\<close> of messaging/rabbitmq/consumer.js, in the same two parts.\<close>

definition createQueueConsumer_begin :: "string \<Rightarrow> rabbitmq_state \<Rightarrow> unit call_state" where
  "createQueueConsumer_begin queue s =
     (case activeQueueConsumers s queue of
        Some existing \<Rightarrow> Returned existing
      | None \<Rightarrow>
          (case createRabbitMQConsumer_begin queue s of
             Inl err \<Rightarrow> Threw err
           | Inr u \<Rightarrow> Awaiting u))"

definition createQueueConsumer_resume ::
  "string \<Rightarrow> unit call_state \<Rightarrow> rabbitmq_state \<Rightarrow> (js_error + consumer) \<times> rabbitmq_state" where
  "createQueueConsumer_resume queue call s =
     (case call of
        Returned c \<Rightarrow> (Inr c, s)
      | Threw err \<Rightarrow> (Inl err, s)
      | Awaiting u \<Rightarrow>
          (case createRabbitMQConsumer_resume queue s of
             Inl err \<Rightarrow> (Inl err, s)
           | Inr (c, s') \<Rightarrow>
               (Inr c, s'\<lparr>activeQueueConsumers := (activeQueueConsumers s')(queue \<mapsto> c)\<rparr>)))"

definition createQueueConsumer ::
  "string \<Rightarrow> rabbitmq_state \<Rightarrow> (js_error + consumer) \<times> rabbitmq_state" where
  "createQueueConsumer queue s =
     createQueueConsumer_resume queue (createQueueConsumer_begin queue s) s"

definition createQueueConsumer_overlapping ::
  "string \<Rightarrow> rabbitmq_state
   \<Rightarrow> (js_error + consumer) \<times> (js_error + consumer) \<times> rabbitmq_state" where
  "createQueueConsumer_overlapping queue s =
     (let call1 = createQueueConsumer_begin queue s;
          call2 = createQueueConsumer_begin queue s;
          (result1, s1) = createQueueConsumer_resume queue call1 s;
          (result2, s2) = createQueueConsumer_resume queue call2 s1
      in (result1, result2, s2))"


section \<open>Fan-out hub (websocket/server.js)\<close>

datatype ready_state = CONNECTING | OPEN | CLOSING | CLOSED

text \<open>An entry of the \<open>clients\<close> map. \<open>send_throws\<close> says whether \<open>client.ws.send\<close>
  raises for this client; \<open>broadcast\<close> catches that and goes on.\<close>

record client =
  client_id :: string
  readyState :: ready_state
  client_topics :: "string list"
  send_throws :: bool

text \<open>\<open>wss\<close> is null until \<open>initializeWebSocketServer\<close> has run; \<open>clients\<close> is the map in
  insertion order.\<close>

record ws_server =
  wss :: bool
  clients :: "client list"

definition hasMatchingTopic :: "string list \<Rightarrow> client \<Rightarrow> bool" where
  "hasMatchingTopic topics c =
     list_ex (\<lambda>topic. topic \<in> set (client_topics c) \<or> ''*'' \<in> set (client_topics c)) topics"

text \<open>The body of \<open>clients.forEach\<close>: the accumulator is \<open>sentCount\<close> together with the
  clients whose \<open>send\<close> completed.\<close>

fun broadcast_each ::
  "bool \<Rightarrow> string list \<Rightarrow> client list \<Rightarrow> nat \<times> client list \<Rightarrow> nat \<times> client list" where
  "broadcast_each hasTopicFilter topics [] acc = acc"
| "broadcast_each hasTopicFilter topics (c # cs) (sentCount, sent) =
     broadcast_each hasTopicFilter topics cs
       (if readyState c \<noteq> OPEN then (sentCount, sent)
        else if hasTopicFilter \<and> \<not> hasMatchingTopic topics c then (sentCount, sent)
        else if send_throws c then (sentCount, sent)
        else (sentCount + 1, sent @ [c]))"

text \<open>\<open>topics\<close> is \<open>None\<close> when the argument is not an array. The first component of the
  result is the returned value (\<open>None\<close> for \<open>undefined\<close>), the second the clients that
  were sent the message.\<close>

definition broadcast :: "ws_server \<Rightarrow> string list option \<Rightarrow> nat option \<times> client list" where
  "broadcast srv topics =
     (if \<not> wss srv then (None, [])
      else (let hasTopicFilter = (case topics of None \<Rightarrow> False | Some ts \<Rightarrow> length ts > 0);
                (sentCount, sent) =
                   broadcast_each hasTopicFilter (case topics of None \<Rightarrow> [] | Some ts \<Rightarrow> ts)
                     (clients srv) (0, [])
            in (Some sentCount, sent)))"

section \<open>Outbound pipeline (messaging/kafka/producer.js, api/controllers/messageController.js)\<close>

text \<open>What \<open>validateMessage\<close> answers, and the payload as it is after the call: the validator
  is configured with \<open>removeAdditional\<close>, \<open>useDefaults\<close> and \<open>coerceTypes\<close>, which rewrite the
  object they are given.\<close>

record validation_result =
  valid :: bool
  validation_error :: string
  validated :: string

text \<open>The state that the publish paths touch: the brokers, the metrics recorded and the
  broadcasts handed to the fan-out hub.\<close>

record outbound = broker +
  metrics :: "(string \<times> string \<times> string \<times> string) list"
  broadcasts :: "(string \<times> string list) list"

text \<open>Setting a key of a header object: an existing key keeps its place.\<close>

fun set_key :: "string \<Rightarrow> string \<Rightarrow> headers \<Rightarrow> headers" where
  "set_key k v [] = [(k, v)]"
| "set_key k v ((k', v') # hs) = (if k = k' then (k, v) # hs else (k', v') # set_key k v hs)"

text \<open>The four tracing headers; the instant of \<open>x-published-at\<close> is kept in decimal.\<close>

definition tracing_headers :: "headers \<Rightarrow> string \<Rightarrow> nat \<Rightarrow> string \<Rightarrow> string \<Rightarrow> headers" where
  "tracing_headers hs transactionId now publisher messageType =
     set_key ''x-message-type'' messageType
       (set_key ''x-published-by'' publisher
         (set_key ''x-published-at'' (decimal now)
           (set_key ''x-transaction-id'' transactionId hs)))"

record publish_options =
  opt_transactionId :: "string option"
  opt_messageType :: "string option"
  opt_headers :: headers
  opt_userId :: "string option"
  opt_key :: "string option"
  opt_requireValidation :: bool
  opt_broadcast :: bool
  opt_broadcastTopics :: "string list option"

record produce_result =
  success :: bool
  result_transactionId :: string

text \<open>
  \<open>produceMessage\<close> of the Kafka producer. \<open>VALIDATE_MESSAGES\<close> is the configuration
  switch, \<open>validateMessage\<close> the schema validator, \<open>rnd\<close> the random suffix of a
  generated transaction id. \<open>opt_broadcast\<close> is \<open>options.broadcast !== false\<close>.
  When validation ran, what is published is the payload as the validator left it. The
  \<open>catch\<close> block records the failure metric and rethrows.
\<close>

definition produceMessage ::
  "bool \<Rightarrow> (string \<Rightarrow> string \<Rightarrow> validation_result) \<Rightarrow> string \<Rightarrow> nat \<Rightarrow>
   string \<Rightarrow> string \<Rightarrow> publish_options \<Rightarrow> outbound \<Rightarrow> (js_error + produce_result) \<times> outbound" where
  "produceMessage VALIDATE_MESSAGES validateMessage rnd now topic message options s =
     (let transactionId = or_else (opt_transactionId options)
            (''kafka-'' @ topic @ ''-'' @ decimal now @ ''-'' @ rnd);
          hs = tracing_headers (opt_headers options) transactionId now
                 (or_else (opt_userId options) ''system'')
                 (or_else (opt_messageType options) ''default'');
          messageType = or_else (opt_messageType options) ''default'';
          failed = (\<lambda>err. (Inl err,
             s\<lparr>metrics := metrics s @
                 [(''kafka'', topic, or_else (opt_messageType options) ''unknown'', ''error'')]\<rparr>))
      in if VALIDATE_MESSAGES \<and> \<not> valid (validateMessage messageType message)
            \<and> opt_requireValidation options
         then failed (Error (''Message validation failed: '' @
                 validation_error (validateMessage messageType message)))
         else (let message' = (if VALIDATE_MESSAGES
                               then validated (validateMessage messageType message)
                               else message)
               in case publishMessage topic (Message message') (opt_key options) hs s of
                 Inl err \<Rightarrow> failed err
               | Inr s1 \<Rightarrow>
                   (let s2 = s1\<lparr>metrics := metrics s1 @ [(''kafka'', topic, messageType, ''success'')]\<rparr>;
                        s3 = (if opt_broadcast options
                              then s2\<lparr>broadcasts := broadcasts s2 @
                                     [(transactionId,
                                       case opt_broadcastTopics options of
                                         None \<Rightarrow> [topic, ''kafka'', ''all'']
                                       | Some ts \<Rightarrow> ts)]\<rparr>
                              else s2)
                    in (Inr \<lparr> success = True, result_transactionId = transactionId \<rparr>, s3))))"

text \<open>The HTTP controller. \<open>split_scheme\<close> is \<open>destination.split('://')\<close>.\<close>

fun split_scheme :: "string \<Rightarrow> string \<Rightarrow> string list" where
  "split_scheme cur [] = [cur]"
| "split_scheme cur (c # cs) =
     (if take 3 (c # cs) = ''://'' then cur # split_scheme [] (drop 2 cs)
      else split_scheme (cur @ [c]) cs)"

definition toLowerCase :: "string \<Rightarrow> string" where
  "toLowerCase s =
     map (\<lambda>c. if 65 \<le> (of_char c :: nat) \<and> (of_char c :: nat) \<le> 90
               then char_of ((of_char c :: nat) + 32) else c) s"

record publish_request =
  req_destination :: "string option"
  req_message :: "string option"
  req_messageType :: "string option"
  req_routingKey :: "string option"
  req_headers :: headers
  req_directQueue :: bool
  req_queueOptions :: queue_options
  req_exchangeType :: "string option"
  req_key :: "string option"
  req_broadcast :: bool
  req_broadcastTopics :: "string list option"
  req_user :: "string option"

record http_response =
  status :: nat
  response_message :: string

definition controller_publishMessage ::
  "bool \<Rightarrow> (string \<Rightarrow> string \<Rightarrow> validation_result) \<Rightarrow> string \<Rightarrow> nat \<Rightarrow>
   publish_request \<Rightarrow> outbound \<Rightarrow> http_response \<times> outbound" where
  "controller_publishMessage VALIDATE_MESSAGES validateMessage rnd now req s =
     (if or_else (req_destination req) [] = []
      then (\<lparr> status = 400, response_message = ''Destination is required'' \<rparr>, s)
      else if or_else (req_message req) [] = []
      then (\<lparr> status = 400, response_message = ''Message content is required'' \<rparr>, s)
      else
       (let destination = or_else (req_destination req) [];
            message = or_else (req_message req) [];
            messageType = (case req_messageType req of None \<Rightarrow> ''default'' | Some t \<Rightarrow> t);
            routingKey = (case req_routingKey req of None \<Rightarrow> [] | Some k \<Rightarrow> k);
            transactionId = ''tx-'' @ decimal now @ ''-'' @ rnd
        in if VALIDATE_MESSAGES \<and> \<not> valid (validateMessage messageType message)
           then (\<lparr> status = 400, response_message = ''Message validation failed'' \<rparr>, s)
           else
            (let message' = (if VALIDATE_MESSAGES
                             then validated (validateMessage messageType message)
                             else message);
                 destParts = split_scheme [] destination;
                 protocol = (if length destParts > 1 then toLowerCase (destParts ! 0) else ''kafka'');
                 dest = (if length destParts > 1 then destParts ! 1 else destination);
                 messageHeaders = tracing_headers (req_headers req) transactionId now
                     (or_else (req_user req) ''anonymous'') messageType;
                 published =
                   (if protocol = ''rabbitmq''
                    then (if req_directQueue req
                          then publishToQueue dest (Message message') (req_queueOptions req)
                                 (req_exchangeType req) messageHeaders s
                          else publishToRabbitMQ dest routingKey (Message message')
                                 (req_exchangeType req) messageHeaders s)
                    else publishMessage dest (Message message') (req_key req) messageHeaders s)
             in case published of
                  Inl err \<Rightarrow> (\<lparr> status = 500, response_message = ''Failed to publish message'' \<rparr>, s)
                | Inr s1 \<Rightarrow>
                    (\<lparr> status = 200, response_message = ''success'' \<rparr>,
                     if req_broadcast req
                     then s1\<lparr>broadcasts := broadcasts s1 @
                            [(transactionId,
                              case req_broadcastTopics req of None \<Rightarrow> [dest] | Some ts \<Rightarrow> ts)]\<rparr>
                     else s1))))"


section \<open>Envelope codec (utils/encryption.js)\<close>

type_synonym byte = "8 word"
type_synonym bytes = "byte list"

subsection \<open>Base64 text of a buffer\<close>

text \<open>\<open>buf.toString('base64')\<close>: three bytes become four characters of the standard
  alphabet, the last group is padded with \<open>=\<close>.\<close>

definition b64_char :: "nat \<Rightarrow> char" where
  "b64_char v =
     (if v < 26 then char_of (65 + v)
      else if v < 52 then char_of (97 + (v - 26))
      else if v < 62 then char_of (48 + (v - 52))
      else if v = 62 then CHR ''+'' else CHR ''/'')"

fun toBase64 :: "bytes \<Rightarrow> string" where
  "toBase64 [] = []"
| "toBase64 [a] =
     [b64_char (unat a div 4), b64_char (unat a mod 4 * 16), CHR ''='', CHR ''='']"
| "toBase64 [a, b] =
     [b64_char (unat a div 4), b64_char (unat a mod 4 * 16 + unat b div 16),
      b64_char (unat b mod 16 * 4), CHR ''='']"
| "toBase64 (a # b # c # rest) =
     [b64_char (unat a div 4), b64_char (unat a mod 4 * 16 + unat b div 16),
      b64_char (unat b mod 16 * 4 + unat c div 64), b64_char (unat c mod 64)] @ toBase64 rest"

text \<open>\<open>Buffer.from(text, 'base64')\<close> is lenient: characters outside the standard and the
  URL-safe alphabet are skipped, decoding stops at the first \<open>=\<close>, and the bits of an
  incomplete last group are dropped.\<close>

definition b64_value :: "char \<Rightarrow> nat option" where
  "b64_value c =
     (let n = (of_char c :: nat)
      in if 65 \<le> n \<and> n \<le> 90 then Some (n - 65)
         else if 97 \<le> n \<and> n \<le> 122 then Some (n - 97 + 26)
         else if 48 \<le> n \<and> n \<le> 57 then Some (n - 48 + 52)
         else if c = CHR ''+'' \<or> c = CHR ''-'' then Some 62
         else if c = CHR ''/'' \<or> c = CHR ''_'' then Some 63
         else None)"

fun b64_sextets :: "string \<Rightarrow> nat list" where
  "b64_sextets [] = []"
| "b64_sextets (c # cs) =
     (if c = CHR ''='' then []
      else (case b64_value c of None \<Rightarrow> b64_sextets cs | Some v \<Rightarrow> v # b64_sextets cs))"

fun b64_pack :: "nat list \<Rightarrow> bytes" where
  "b64_pack (s1 # s2 # s3 # s4 # rest) =
     [of_nat (s1 * 4 + s2 div 16), of_nat (s2 mod 16 * 16 + s3 div 4),
      of_nat (s3 mod 4 * 64 + s4)] @ b64_pack rest"
| "b64_pack [s1, s2, s3] = [of_nat (s1 * 4 + s2 div 16), of_nat (s2 mod 16 * 16 + s3 div 4)]"
| "b64_pack [s1, s2] = [of_nat (s1 * 4 + s2 div 16)]"
| "b64_pack [s1] = []"
| "b64_pack [] = []"

definition fromBase64 :: "string \<Rightarrow> bytes" where
  "fromBase64 text = b64_pack (b64_sextets text)"

subsection \<open>Strings\<close>

text \<open>\<open>text.split(':')\<close> and \<open>text.includes(part)\<close>.\<close>

fun split_char :: "char \<Rightarrow> string \<Rightarrow> string list" where
  "split_char sep [] = [[]]"
| "split_char sep (c # cs) =
     (if c = sep then [] # split_char sep cs
      else (let parts = split_char sep cs in (c # hd parts) # tl parts))"

fun str_includes :: "string \<Rightarrow> string \<Rightarrow> bool" where
  "str_includes [] part = (part = [])"
| "str_includes (c # cs) part = (take (length part) (c # cs) = part \<or> str_includes cs part)"

subsection \<open>JavaScript strings and UTF-8\<close>

text \<open>A JavaScript string is a sequence of 16-bit code units. \<open>of_latin1\<close> gives the string
  of a literal whose characters are below U+0100.\<close>

type_synonym code_unit = "16 word"
type_synonym js_string = "code_unit list"

definition of_latin1 :: "string \<Rightarrow> js_string" where
  "of_latin1 s = map (\<lambda>c. of_nat (of_char c)) s"

definition is_high_surrogate :: "nat \<Rightarrow> bool" where
  "is_high_surrogate n = (55296 \<le> n \<and> n < 56320)"

definition is_low_surrogate :: "nat \<Rightarrow> bool" where
  "is_low_surrogate n = (56320 \<le> n \<and> n < 57344)"

text \<open>The UTF-8 bytes of a code point, and of U+FFFD, the replacement character.\<close>

definition utf8_bytes :: "nat \<Rightarrow> bytes" where
  "utf8_bytes cp =
     (if cp < 128 then [of_nat cp]
      else if cp < 2048 then [of_nat (192 + cp div 64), of_nat (128 + cp mod 64)]
      else if cp < 65536
      then [of_nat (224 + cp div 4096), of_nat (128 + cp div 64 mod 64), of_nat (128 + cp mod 64)]
      else [of_nat (240 + cp div 262144), of_nat (128 + cp div 4096 mod 64),
            of_nat (128 + cp div 64 mod 64), of_nat (128 + cp mod 64)])"

definition replacement_bytes :: bytes where
  "replacement_bytes = [239, 191, 189]"

text \<open>\<open>Buffer.from(text)\<close> and the \<open>'utf8'\<close> input encoding of \<open>cipher.update\<close>: a high
  surrogate followed by a low one is one code point; a surrogate on its own is written
  as U+FFFD.\<close>

fun utf8_encode :: "js_string \<Rightarrow> bytes" where
  "utf8_encode [] = []"
| "utf8_encode [c] =
     (if is_high_surrogate (unat c) \<or> is_low_surrogate (unat c) then replacement_bytes
      else utf8_bytes (unat c))"
| "utf8_encode (c # d # ds) =
     (if is_high_surrogate (unat c)
      then (if is_low_surrogate (unat d)
            then utf8_bytes (65536 + (unat c - 55296) * 1024 + (unat d - 56320)) @ utf8_encode ds
            else replacement_bytes @ utf8_encode (d # ds))
      else if is_low_surrogate (unat c) then replacement_bytes @ utf8_encode (d # ds)
      else utf8_bytes (unat c) @ utf8_encode (d # ds))"

text \<open>The code units of a code point.\<close>

definition code_point_units :: "nat \<Rightarrow> js_string" where
  "code_point_units cp =
     (if cp < 65536 then [of_nat cp]
      else [of_nat (55296 + (cp - 65536) div 1024), of_nat (56320 + (cp - 65536) mod 1024)])"

text \<open>
  The \<open>'utf8'\<close> output encoding of \<open>decipher.update\<close> and \<open>decipher.final\<close>: the decoder of
  the Encoding standard. The state is the number of continuation bytes still expected,
  the code point collected so far, and the bounds for the next byte. A byte that cannot
  start or continue a sequence gives U+FFFD; a byte that breaks off a sequence is read
  again as the start of the next one; a sequence cut off by the end gives U+FFFD.
\<close>

function utf8_decode_state :: "nat \<Rightarrow> nat \<Rightarrow> nat \<Rightarrow> nat \<Rightarrow> bytes \<Rightarrow> js_string" where
  "utf8_decode_state remaining cp lower upper [] = (if remaining = 0 then [] else [65533])"
| "utf8_decode_state remaining cp lower upper (b # bs) =
     (let n = unat b in
      if remaining = 0
      then (if n < 128 then of_nat n # utf8_decode_state 0 0 128 191 bs
            else if 194 \<le> n \<and> n \<le> 223 then utf8_decode_state 1 (n mod 32) 128 191 bs
            else if 224 \<le> n \<and> n \<le> 239
            then utf8_decode_state 2 (n mod 16) (if n = 224 then 160 else 128)
                   (if n = 237 then 159 else 191) bs
            else if 240 \<le> n \<and> n \<le> 244
            then utf8_decode_state 3 (n mod 8) (if n = 240 then 144 else 128)
                   (if n = 244 then 143 else 191) bs
            else 65533 # utf8_decode_state 0 0 128 191 bs)
      else if n < lower \<or> upper < n then 65533 # utf8_decode_state 0 0 128 191 (b # bs)
      else if remaining = 1
      then code_point_units (cp * 64 + n mod 64) @ utf8_decode_state 0 0 128 191 bs
      else utf8_decode_state (remaining - 1) (cp * 64 + n mod 64) 128 191 bs)"
  by pat_completeness auto
termination
  by (relation "measure (\<lambda>(remaining, cp, lower, upper, bs).
        2 * length bs + (if remaining = 0 then 0 else 1))") auto

definition utf8_decode :: "bytes \<Rightarrow> js_string" where
  "utf8_decode bs = utf8_decode_state 0 0 128 191 bs"

text \<open>A string is well formed when every surrogate is half of a pair.\<close>

fun well_formed :: "js_string \<Rightarrow> bool" where
  "well_formed [] = True"
| "well_formed [c] = (\<not> is_high_surrogate (unat c) \<and> \<not> is_low_surrogate (unat c))"
| "well_formed (c # d # ds) =
     (if is_high_surrogate (unat c) then is_low_surrogate (unat d) \<and> well_formed ds
      else \<not> is_low_surrogate (unat c) \<and> well_formed (d # ds))"

subsection \<open>The platform's cipher\<close>

text \<open>
  The module calls Node's \<open>crypto\<close>; what it computes is a parameter of the model. Each
  field is one of the calls the module makes, as a function of everything the call
  depends on: the algorithm name, the key, the IV, and the data.
  \<^item> \<open>cipheriv_ok\<close>: \<open>createCipheriv\<close> and \<open>createDecipheriv\<close> accept algorithm, key and IV;
  \<^item> \<open>cipher_update\<close>: the ciphertext of \<open>update\<close> followed by \<open>final\<close>;
  \<^item> \<open>getAuthTag\<close>: the tag after \<open>final\<close>;
  \<^item> \<open>setAuthTag_ok\<close>: \<open>setAuthTag\<close> accepts the tag;
  \<^item> \<open>decipher_update\<close>: what \<open>update\<close> gives back before the tag is checked;
  \<^item> \<open>decipher_final_ok\<close>: \<open>final\<close> does not throw, given the tag that was set (if any).
\<close>

record crypto_lib =
  cipheriv_ok :: "string \<Rightarrow> bytes \<Rightarrow> bytes \<Rightarrow> bool"
  cipher_update :: "string \<Rightarrow> bytes \<Rightarrow> bytes \<Rightarrow> bytes \<Rightarrow> bytes"
  getAuthTag :: "string \<Rightarrow> bytes \<Rightarrow> bytes \<Rightarrow> bytes \<Rightarrow> bytes"
  setAuthTag_ok :: "string \<Rightarrow> bytes \<Rightarrow> bool"
  decipher_update :: "string \<Rightarrow> bytes \<Rightarrow> bytes \<Rightarrow> bytes \<Rightarrow> bytes"
  decipher_final_ok :: "string \<Rightarrow> bytes \<Rightarrow> bytes \<Rightarrow> bytes option \<Rightarrow> bytes \<Rightarrow> bool"

record encryption_config =
  ENCRYPTION_ALGORITHM :: string
  ENCRYPTION_KEY :: js_string

definition default_encryption_config :: encryption_config where
  "default_encryption_config =
     \<lparr> ENCRYPTION_ALGORITHM = ''aes-256-gcm'',
       ENCRYPTION_KEY = of_latin1 ''01234567890123456789012345678901'' \<rparr>"

definition IV_LENGTH :: nat where
  "IV_LENGTH = 16"


definition authenticated_mode :: "string \<Rightarrow> bool" where
  "authenticated_mode algorithm = (str_includes algorithm ''gcm'' \<or> str_includes algorithm ''ccm'')"

text \<open>\<open>iv\<close> is the value of \<open>crypto.randomBytes(IV_LENGTH)\<close> in this call.\<close>

definition encryptData ::
  "crypto_lib \<Rightarrow> encryption_config \<Rightarrow> bytes \<Rightarrow> js_string \<Rightarrow> js_error + string" where
  "encryptData lib cfg iv data =
     (let algorithm = ENCRYPTION_ALGORITHM cfg;
          key = utf8_encode (ENCRYPTION_KEY cfg)
      in if \<not> cipheriv_ok lib algorithm key iv then Inl (Error ''Failed to encrypt data'')
         else (let ciphertext = cipher_update lib algorithm key iv (utf8_encode data);
                   encrypted = toBase64 ciphertext;
                   authTag = (if authenticated_mode algorithm
                              then Some (getAuthTag lib algorithm key iv ciphertext) else None)
               in Inr (toBase64 iv @ '':'' @
                       (case authTag of Some t \<Rightarrow> toBase64 t @ '':'' | None \<Rightarrow> '':'') @
                       encrypted)))"

text \<open>Whatever is thrown inside \<open>decryptData\<close> is caught and replaced by one error.\<close>

definition decryptData ::
  "crypto_lib \<Rightarrow> encryption_config \<Rightarrow> string \<Rightarrow> js_error + js_string" where
  "decryptData lib cfg encryptedData =
     (let algorithm = ENCRYPTION_ALGORITHM cfg;
          key = utf8_encode (ENCRYPTION_KEY cfg);
          parts = split_char CHR '':'' encryptedData
      in if length parts \<noteq> 3 then Inl (Error ''Failed to decrypt data'')
         else (let iv = fromBase64 (parts ! 0);
                   authTagStr = parts ! 1;
                   encrypted = parts ! 2
               in if \<not> cipheriv_ok lib algorithm key iv then Inl (Error ''Failed to decrypt data'')
                  else (let authTag = (if authTagStr \<noteq> [] \<and> authenticated_mode algorithm
                                       then Some (fromBase64 authTagStr) else None)
                        in if (case authTag of Some t \<Rightarrow> \<not> setAuthTag_ok lib algorithm t
                                | None \<Rightarrow> False)
                           then Inl (Error ''Failed to decrypt data'')
                           else (let ciphertext = fromBase64 encrypted;
                                     decrypted = utf8_decode
                                        (decipher_update lib algorithm key iv ciphertext)
                                 in if decipher_final_ok lib algorithm key iv authTag ciphertext
                                    then Inr decrypted
                                    else Inl (Error ''Failed to decrypt data'')))))"

text \<open>A byte sequence with the layout that \<open>encryptData\<close> writes: IV, tag and ciphertext,
  each in Base64, joined by colons.\<close>

definition envelope :: "bytes \<Rightarrow> bytes \<Rightarrow> bytes \<Rightarrow> string" where
  "envelope iv tag ciphertext = toBase64 iv @ '':'' @ toBase64 tag @ '':'' @ toBase64 ciphertext"

text \<open>
  What one encryption relies on from the platform: it accepts the key and the IV, the
  decipher gives back the plaintext bytes of the ciphertext, and the tag it produced is
  non-empty, is accepted by \<open>setAuthTag\<close> and verifies.
\<close>

definition cipher_inverts :: "crypto_lib \<Rightarrow> string \<Rightarrow> bytes \<Rightarrow> bytes \<Rightarrow> bytes \<Rightarrow> bool" where
  "cipher_inverts lib algorithm key iv plaintext =
     (let ciphertext = cipher_update lib algorithm key iv plaintext;
          tag = getAuthTag lib algorithm key iv ciphertext
      in cipheriv_ok lib algorithm key iv
         \<and> decipher_update lib algorithm key iv ciphertext = plaintext
         \<and> tag \<noteq> []
         \<and> setAuthTag_ok lib algorithm tag
         \<and> decipher_final_ok lib algorithm key iv (Some tag) ciphertext)"


section \<open>Observations used in the statements\<close>

text \<open>The producer side that \<open>source\<close> needs is up.\<close>

definition can_publish :: "string \<Rightarrow> 'a broker_scheme \<Rightarrow> bool" where
  "can_publish source b = (if source = ''kafka'' then producer b else producerChannel b)"

text \<open>\<open>messageData.retryCount || 0\<close>.\<close>

definition read_retryCount :: "message_data \<Rightarrow> nat" where
  "read_retryCount messageData = (case md_retryCount messageData of None \<Rightarrow> 0 | Some n \<Rightarrow> n)"

definition retry_destination :: "env \<Rightarrow> string \<Rightarrow> string" where
  "retry_destination e source = (if source = ''kafka'' then RETRY_TOPIC e else RETRY_QUEUE e)"

definition dlq_destination :: "env \<Rightarrow> string \<Rightarrow> string" where
  "dlq_destination e source = (if source = ''kafka'' then DLQ_TOPIC e else DLQ_QUEUE e)"

definition original_headers :: "original_message \<Rightarrow> headers" where
  "original_headers om =
     (case om of KafkaOriginal _ _ _ _ _ hs \<Rightarrow> hs | RabbitOriginal _ _ hs _ \<Rightarrow> hs)"

text \<open>The three tests that a client passes before \<open>sentCount\<close> is incremented.\<close>

definition delivers :: "bool \<Rightarrow> string list \<Rightarrow> client \<Rightarrow> bool" where
  "delivers hasTopicFilter topics c =
     (readyState c = OPEN \<and> (hasTopicFilter \<longrightarrow> hasMatchingTopic topics c) \<and> \<not> send_throws c)"

section \<open>Sample inputs\<close>

definition sample_message :: message_data where
  "sample_message = \<lparr> md_topic = Some ''orders'', md_queue = None,
     md_message = \<lparr> rm_partition = Some 0, rm_offset = Some ''42'', rm_key = None,
        rm_value = Some ''{}'', rm_headers = Some [(''x-transaction-id'', ''tx-1'')],
        rm_content = None, rm_properties = None, rm_fields = None \<rparr>,
     md_error = ''boom'', md_retryCount = None \<rparr>"

definition ready_broker :: broker where
  "ready_broker = \<lparr> producer = True, producerChannel = True, broker_calls = [] \<rparr>"

definition sample_error_message :: error_message where
  "sample_error_message =
     build_error_message 5 ''kafka'' (sample_message\<lparr>md_retryCount := Some 3\<rparr>)"

text \<open>Four deliveries of one task to a handler that fails each time: the task as it was
  published, then the record that came back from the retry queue, three times.\<close>

definition first_delivery :: failed_delivery where
  "first_delivery = \<lparr> fd_message = \<lparr> rm_partition = None, rm_offset = None, rm_key = None,
        rm_value = None, rm_headers = None, rm_content = Some ''{task:1}'',
        rm_properties = Some [], rm_fields = Some [(''routingKey'', ''tasks'')] \<rparr>,
     fd_error = ''boom'', fd_stamped = 10, fd_sent = 11 \<rparr>"

definition redelivery :: "nat \<Rightarrow> failed_delivery" where
  "redelivery t = \<lparr> fd_message = \<lparr> rm_partition = None, rm_offset = None, rm_key = None,
        rm_value = None, rm_headers = None, rm_content = Some ''{retryCount:1}'',
        rm_properties = Some [(''expiration'', ''2000'')],
        rm_fields = Some [(''routingKey'', ''tasks'')] \<rparr>,
     fd_error = ''boom'', fd_stamped = t, fd_sent = t + 1 \<rparr>"

definition four_failures :: "failed_delivery list" where
  "four_failures = [first_delivery, redelivery 2020, redelivery 4030, redelivery 6040]"

definition fresh_kafka :: kafka_state where
  "fresh_kafka = \<lparr> kafkaClient = True, kafka_reachable = True, kafka_created = 0,
                   consumers = [], activeConsumers = Map.empty \<rparr>"

definition fresh_rabbitmq :: rabbitmq_state where
  "fresh_rabbitmq = \<lparr> connection = True, rabbitmq_reachable = True, rabbitmq_created = 0,
                      consumerChannels = [], activeQueueConsumers = Map.empty \<rparr>"

definition orders_client :: client where
  "orders_client = \<lparr> client_id = ''c1'', readyState = OPEN, client_topics = [''orders''],
                     send_throws = False \<rparr>"

definition wildcard_client :: client where
  "wildcard_client = \<lparr> client_id = ''c2'', readyState = OPEN, client_topics = [''*''],
                       send_throws = False \<rparr>"

definition silent_client :: client where
  "silent_client = \<lparr> client_id = ''c3'', readyState = OPEN, client_topics = [],
                     send_throws = False \<rparr>"

definition hub :: ws_server where
  "hub = \<lparr> wss = True, clients = [orders_client, wildcard_client, silent_client] \<rparr>"

definition reject_all :: "string \<Rightarrow> string \<Rightarrow> validation_result" where
  "reject_all messageType message =
     \<lparr> valid = False, validation_error = ''data must have required property orderId'',
       validated = message \<rparr>"

definition strict_options :: publish_options where
  "strict_options = \<lparr> opt_transactionId = None, opt_messageType = Some ''order'',
     opt_headers = [], opt_userId = None, opt_key = None, opt_requireValidation = True,
     opt_broadcast = True, opt_broadcastTopics = None \<rparr>"

definition order_request :: publish_request where
  "order_request = \<lparr> req_destination = Some ''kafka://orders'',
     req_message = Some ''{items:[]}'', req_messageType = Some ''order'',
     req_routingKey = None, req_headers = [], req_directQueue = False,
     req_queueOptions = no_queue_options, req_exchangeType = None, req_key = None,
     req_broadcast = True, req_broadcastTopics = None, req_user = None \<rparr>"

definition connected :: outbound where
  "connected = \<lparr> producer = True, producerChannel = True, broker_calls = [], metrics = [],
                 broadcasts = [] \<rparr>"

text \<open>A stand-in for the platform's cipher, small enough to run: the keystream is one
  byte, the tag sixteen copies of a checksum over key, IV and ciphertext. Like the
  platform's GCM it accepts a tag of 4, 8 or 12 to 16 bytes and compares it with the
  leading bytes of the tag it computes.\<close>

definition stub_tag :: "bytes \<Rightarrow> bytes \<Rightarrow> bytes \<Rightarrow> bytes" where
  "stub_tag key iv ciphertext = replicate 16 (sum_list (key @ iv @ ciphertext))"

definition stub_crypto :: crypto_lib where
  "stub_crypto =
     \<lparr> cipheriv_ok = (\<lambda>algorithm key iv. length key = 32 \<and> iv \<noteq> []),
       cipher_update = (\<lambda>algorithm key iv plaintext. map (\<lambda>b. b XOR hd key XOR hd iv) plaintext),
       getAuthTag = (\<lambda>algorithm key iv ciphertext. stub_tag key iv ciphertext),
       setAuthTag_ok = (\<lambda>algorithm tag. length tag \<in> {4, 8, 12, 13, 14, 15, 16}),
       decipher_update =
         (\<lambda>algorithm key iv ciphertext. map (\<lambda>b. b XOR hd key XOR hd iv) ciphertext),
       decipher_final_ok =
         (\<lambda>algorithm key iv tag ciphertext.
            case tag of None \<Rightarrow> False
            | Some t \<Rightarrow> t = take (length t) (stub_tag key iv ciphertext)) \<rparr>"

definition sample_iv :: bytes where
  "sample_iv = [1, 2, 3, 4, 5, 6, 7, 8, 9, 10, 11, 12, 13, 14, 15, 16]"

text \<open>The envelope of \<open>'hi'\<close> under the stand-in, and the same text with the last data
  character of the tag part changed from \<open>Q\<close> to \<open>R\<close>.\<close>

text \<open>The text \<open>hi\<close> followed by U+00E9, U+20AC and the surrogate pair of U+1F600.\<close>

definition sample_text :: js_string where
  "sample_text = [104, 105, 233, 8364, 55357, 56832]"



section \<open>Failure recovery: retry and dead-lettering\<close>

lemmas recovery_defs = Let_def handleFailedMessage_def build_error_message_def
  sendToRetryQueue_def sendToDeadLetterQueue_def publishToKafka_def publishMessage_def
  publishToQueue_def publishToRabbitMQ_def assertQueue_def toISOString_def retryDelayMs_def
  error_message.extend_def retry_message.fields_def dlq_message.fields_def

text \<open>Below the bound, and with a retry instant that a \<open>Date\<close> can hold, one call makes
  exactly one publish: to the retry destination, of the error record with \<open>retryCount\<close>
  incremented, and with a delay computed from the incremented count.\<close>

lemma handle_retry:
  assumes "below_max (read_retryCount md) (MAX_RETRIES e)" "can_publish source b"
    and "t1 + 2 ^ (read_retryCount md + 1) * 1000 \<le> MAX_TIME_VALUE"
  shows "\<exists>b' r. handleFailedMessage e t0 t1 source md b = (True, b')
     \<and> published b' = published b @ [(retry_destination e source, RetryPayload r)]
     \<and> producer b' = producer b \<and> producerChannel b' = producerChannel b
     \<and> error_message.truncate r
         = (build_error_message t0 source md)\<lparr>em_retryCount := read_retryCount md + 1\<rparr>
     \<and> retryDelay r = 2 ^ (read_retryCount md + 1) * 1000
     \<and> retryAt r = t1 + 2 ^ (read_retryCount md + 1) * 1000"
  using assms
  by (auto simp: recovery_defs can_publish_def read_retryCount_def error_message.truncate_def
        published_def retry_destination_def split: option.splits)

text \<open>Below the bound, with a retry instant beyond the range of a \<open>Date\<close>, building
  \<open>retryAt\<close> throws: the call answers \<open>false\<close> and nothing is sent.\<close>

lemma handle_retry_out_of_range:
  assumes "below_max (read_retryCount md) (MAX_RETRIES e)"
    and "MAX_TIME_VALUE < t1 + 2 ^ (read_retryCount md + 1) * 1000"
  shows "handleFailedMessage e t0 t1 source md b = (False, b)"
  using assms
  by (auto simp: recovery_defs read_retryCount_def split: option.splits)

text \<open>At or above the bound, one call makes exactly one publish: of a dead-letter record,
  to the dead-letter destination.\<close>

lemma handle_dlq:
  assumes "\<not> below_max (read_retryCount md) (MAX_RETRIES e)" "can_publish source b"
  shows "\<exists>b' d. handleFailedMessage e t0 t1 source md b = (True, b')
     \<and> published b' = published b @ [(dlq_destination e source, DeadLetterPayload d)]
     \<and> producer b' = producer b \<and> producerChannel b' = producerChannel b
     \<and> error_message.truncate d = build_error_message t0 source md
     \<and> movedToDLQ d = t1 \<and> finalStatus d = ''failed''"
  using assms
  by (auto simp: recovery_defs can_publish_def read_retryCount_def error_message.truncate_def
        published_def dlq_destination_def no_queue_options_def split: option.splits)

lemma em_retryCount_build [simp]:
  "em_retryCount (build_error_message now source md) = read_retryCount md"
  by (simp add: build_error_message_def read_retryCount_def)

lemma em_retryCount_truncate: "em_retryCount (error_message.truncate r) = em_retryCount r"
  by (simp add: error_message.truncate_def)

text \<open>One failure handled by an adapter: the count is read as 0, whatever was delivered,
  and a retry with count 1 and a delay of 2000 ms is published.\<close>

lemma adapter_failure:
  assumes "md_retryCount md = None" and "below_max 0 (MAX_RETRIES e)"
    and "can_publish source b" and "t1 + 2000 \<le> MAX_TIME_VALUE"
  shows "\<exists>b'. handleFailedMessage e t0 t1 source md b = (True, b')
     \<and> producer b' = producer b \<and> producerChannel b' = producerChannel b
     \<and> map route_of (published b')
         = map route_of (published b) @ [(retry_destination e source, ToRetry 1)]
     \<and> retry_delays b' = retry_delays b @ [2000]"
proof -
  have rc: "read_retryCount md = 0" using assms(1) by (simp add: read_retryCount_def)
  have bm: "below_max (read_retryCount md) (MAX_RETRIES e)" using assms(2) by (simp add: rc)
  have tm: "t1 + 2 ^ (read_retryCount md + 1) * 1000 \<le> MAX_TIME_VALUE"
    using assms(4) by (simp add: rc)
  from handle_retry [OF bm assms(3) tm, of t0] obtain b' r where
    h: "handleFailedMessage e t0 t1 source md b = (True, b')"
    and p: "published b' = published b @ [(retry_destination e source, RetryPayload r)]"
    and fr: "producer b' = producer b" "producerChannel b' = producerChannel b"
    and tr: "error_message.truncate r
               = (build_error_message t0 source md)\<lparr>em_retryCount := read_retryCount md + 1\<rparr>"
    and d: "retryDelay r = 2 ^ (read_retryCount md + 1) * 1000"
    by blast
  from arg_cong [OF tr, of em_retryCount] have "em_retryCount r
      = em_retryCount ((build_error_message t0 source md)\<lparr>em_retryCount := read_retryCount md + 1\<rparr>)"
    by (simp only: em_retryCount_truncate)
  then have c: "em_retryCount r = 1" by (simp add: rc)
  have d': "retryDelay r = 2000" using d by (simp add: rc)
  have "map route_of (published b')
         = map route_of (published b) @ [(retry_destination e source, ToRetry 1)]"
    by (simp add: p route_of_def c)
  moreover have "retry_delays b' = retry_delays b @ [2000]"
    by (simp add: retry_delays_def p d')
  ultimately show ?thesis using h fr by blast
qed

lemma eachMessage_failures_routes:
  assumes "below_max 0 (MAX_RETRIES e)" and "producer b"
    and "\<forall>d \<in> set ds. fd_sent d + 2000 \<le> MAX_TIME_VALUE"
  shows "map route_of (published (eachMessage_failures e topic ds b))
         = map route_of (published b) @ replicate (length ds) (RETRY_TOPIC e, ToRetry 1)"
  using assms(2,3)
proof (induction ds arbitrary: b)
  case Nil
  show ?case by simp
next
  case (Cons d ds)
  let ?md = "\<lparr> md_topic = Some topic, md_queue = None, md_message = fd_message d,
               md_error = fd_error d, md_retryCount = None \<rparr>"
  have cp: "can_publish ''kafka'' b" using Cons.prems(1) by (simp add: can_publish_def)
  have tm: "fd_sent d + 2000 \<le> MAX_TIME_VALUE" using Cons.prems(2) by simp
  from adapter_failure [of ?md e "''kafka''" b "fd_sent d" "fd_stamped d", OF _ assms(1) cp tm]
  obtain b' where
    h: "handleFailedMessage e (fd_stamped d) (fd_sent d) ''kafka'' ?md b = (True, b')"
    and fr: "producer b' = producer b"
    and r: "map route_of (published b')
         = map route_of (published b) @ [(retry_destination e ''kafka'', ToRetry 1)]"
    by auto
  have step: "snd (eachMessage_catch e (fd_stamped d) (fd_sent d) topic (fd_message d)
                     (fd_error d) b) = b'"
    by (simp add: eachMessage_catch_def h)
  have "producer b'" using fr Cons.prems(1) by simp
  moreover have "\<forall>d \<in> set ds. fd_sent d + 2000 \<le> MAX_TIME_VALUE" using Cons.prems(2) by simp
  ultimately have "map route_of (published (eachMessage_failures e topic ds b'))
         = map route_of (published b') @ replicate (length ds) (RETRY_TOPIC e, ToRetry 1)"
    by (rule Cons.IH)
  then show ?case
    by (simp add: step r retry_destination_def replicate_append_same)
qed

lemma consume_failures_routes:
  assumes "below_max 0 (MAX_RETRIES e)" and "producerChannel b"
    and "\<forall>d \<in> set ds. fd_sent d + 2000 \<le> MAX_TIME_VALUE"
  shows "map route_of (published (consume_failures e queue ds b))
         = map route_of (published b) @ replicate (length ds) (RETRY_QUEUE e, ToRetry 1)"
  using assms(2,3)
proof (induction ds arbitrary: b)
  case Nil
  show ?case by simp
next
  case (Cons d ds)
  let ?md = "\<lparr> md_topic = None, md_queue = Some queue, md_message = fd_message d,
               md_error = fd_error d, md_retryCount = None \<rparr>"
  have cp: "can_publish ''rabbitmq'' b" using Cons.prems(1) by (simp add: can_publish_def)
  have tm: "fd_sent d + 2000 \<le> MAX_TIME_VALUE" using Cons.prems(2) by simp
  from adapter_failure [of ?md e "''rabbitmq''" b "fd_sent d" "fd_stamped d", OF _ assms(1) cp tm]
  obtain b' where
    h: "handleFailedMessage e (fd_stamped d) (fd_sent d) ''rabbitmq'' ?md b = (True, b')"
    and fr: "producerChannel b' = producerChannel b"
    and r: "map route_of (published b')
         = map route_of (published b) @ [(retry_destination e ''rabbitmq'', ToRetry 1)]"
    by auto
  have step: "snd (consume_catch e (fd_stamped d) (fd_sent d) queue (fd_message d)
                     (fd_error d) b) = b'"
    by (simp add: consume_catch_def h)
  have "producerChannel b'" using fr Cons.prems(1) by simp
  moreover have "\<forall>d \<in> set ds. fd_sent d + 2000 \<le> MAX_TIME_VALUE" using Cons.prems(2) by simp
  ultimately have "map route_of (published (consume_failures e queue ds b'))
         = map route_of (published b') @ replicate (length ds) (RETRY_QUEUE e, ToRetry 1)"
    by (rule Cons.IH)
  then show ?case
    by (simp add: step r retry_destination_def replicate_append_same)
qed

text \<open>
  Claim C3, what the code does. The claim has the count grow 0, 1, 2, 3 over the
  deliveries of a message whose handler always fails, and the message dead-lettered at
  the bound. The two callers of \<open>handleFailedMessage\<close> (the \<open>catch\<close> blocks of the Kafka
  and the RabbitMQ consumer) pass no \<open>retryCount\<close>, and nothing reads the count of a
  retry record back (\<open>processRetryQueue\<close> has an empty body). So for \<open>MAX_RETRIES\<close> of at
  least 1, every failed delivery, however many there are and whatever they carry, is read
  with count 0 and answered by a retry record with count 1: the publishes are all to the
  retry destination, and none is a dead-letter record.
\<close>

theorem retry_count_not_carried:
  assumes "below_max 0 (MAX_RETRIES e)" and "producer b" and "producerChannel b"
    and "\<forall>d \<in> set deliveries. fd_sent d + 2000 \<le> MAX_TIME_VALUE"
  shows "map route_of (published (eachMessage_failures e topic deliveries b))
           = map route_of (published b)
             @ replicate (length deliveries) (RETRY_TOPIC e, ToRetry 1)
       \<and> map route_of (published (consume_failures e queue deliveries b))
           = map route_of (published b)
             @ replicate (length deliveries) (RETRY_QUEUE e, ToRetry 1)"
  using eachMessage_failures_routes [OF assms(1) assms(2) assms(4)]
    consume_failures_routes [OF assms(1) assms(3) assms(4)]
  by simp

theorem retry_count_not_carried_witness:
  "below_max 0 (MAX_RETRIES default_env) \<and> producer ready_broker \<and> producerChannel ready_broker
   \<and> map fd_sent four_failures = [11, 2021, 4031, 6041]
   \<and> map route_of (published (consume_failures default_env ''tasks'' four_failures ready_broker))
       = [(''streambridge.retry'', ToRetry 1), (''streambridge.retry'', ToRetry 1),
          (''streambridge.retry'', ToRetry 1), (''streambridge.retry'', ToRetry 1)]
   \<and> map route_of (published (eachMessage_failures default_env ''orders'' four_failures
         ready_broker))
       = [(''streambridge.retry'', ToRetry 1), (''streambridge.retry'', ToRetry 1),
          (''streambridge.retry'', ToRetry 1), (''streambridge.retry'', ToRetry 1)]"
proof -
  have a: "below_max 0 (MAX_RETRIES default_env)" by (simp add: below_max_def default_env_def)
  have b: "producer ready_broker" "producerChannel ready_broker"
    by (simp_all add: ready_broker_def)
  have c: "\<forall>d \<in> set four_failures. fd_sent d + 2000 \<le> MAX_TIME_VALUE"
    by (simp add: four_failures_def first_delivery_def redelivery_def MAX_TIME_VALUE_def)
  have d: "published ready_broker = []" "length four_failures = 4"
    "RETRY_TOPIC default_env = ''streambridge.retry''"
    "RETRY_QUEUE default_env = ''streambridge.retry''"
    by (simp_all add: published_def ready_broker_def four_failures_def default_env_def)
  have e: "replicate 4 x = [x, x, x, x]" for x :: "string \<times> routed"
    by (simp add: numeral_eq_Suc)
  have f: "map fd_sent four_failures = [11, 2021, 4031, 6041]"
    by (simp add: four_failures_def first_delivery_def redelivery_def)
  from retry_count_not_carried [OF a b c, of "''orders''" "''tasks''"] a b f
  show ?thesis by (simp add: d e)
qed

text \<open>
  Claim C4, as stated: the delay before the retry of a message read with \<open>retryCount = n\<close>
  is \<open>2 ^ n\<close> seconds, so 1 second for \<open>n = 0\<close>. The code increments the count before it
  computes the delay: a first failure (\<open>retryCount\<close> absent, read as 0, below the default
  bound 3) is scheduled with a delay of 2000 ms.
\<close>

theorem backoff_delay_counterexample:
  "read_retryCount sample_message = 0 \<and> below_max 0 (MAX_RETRIES default_env)
   \<and> retry_delays (snd (handleFailedMessage default_env 5 7 ''kafka'' sample_message ready_broker))
       = [2000]
   \<and> retry_delays (snd (handleFailedMessage default_env 5 7 ''kafka'' sample_message ready_broker))
       \<noteq> [2 ^ read_retryCount sample_message * 1000]"
  by (simp add: recovery_defs default_env_def sample_message_def ready_broker_def
        retry_delays_def published_def read_retryCount_def below_max_def MAX_TIME_VALUE_def)

text \<open>
  Claim C4, amended: for a message read with \<open>retryCount = n\<close> below \<open>MAX_RETRIES\<close>, the
  delay of the scheduled retry is \<open>2 ^ (n + 1)\<close> seconds (\<open>2 ^ (n + 1) * 1000\<close> ms), the
  exponent being the incremented count that the retry record carries: counts 0, 1, 2 give
  2, 4 and 8 seconds. This holds as long as the retry instant (the clock plus the delay)
  is a time value that a \<open>Date\<close> can hold, at most \<open>MAX_TIME_VALUE\<close>; beyond it, building
  \<open>retryAt\<close> throws, no retry is scheduled and the call answers \<open>false\<close>.
\<close>

theorem backoff_delay:
  assumes "below_max (read_retryCount md) (MAX_RETRIES e)" and "can_publish source b"
  shows "fst (handleFailedMessage e t0 t1 source md b)
           = (t1 + 2 ^ (read_retryCount md + 1) * 1000 \<le> MAX_TIME_VALUE)
       \<and> retry_delays (snd (handleFailedMessage e t0 t1 source md b))
           = (if t1 + 2 ^ (read_retryCount md + 1) * 1000 \<le> MAX_TIME_VALUE
              then retry_delays b @ [2 ^ (read_retryCount md + 1) * 1000]
              else retry_delays b)"
proof (cases "t1 + 2 ^ (read_retryCount md + 1) * 1000 \<le> MAX_TIME_VALUE")
  case True
  from handle_retry [OF assms True, of t0] obtain b' r where
    h: "handleFailedMessage e t0 t1 source md b = (True, b')"
    and p: "published b' = published b @ [(retry_destination e source, RetryPayload r)]"
    and d: "retryDelay r = 2 ^ (read_retryCount md + 1) * 1000"
    by blast
  show ?thesis using True by (simp add: h retry_delays_def p d)
next
  case False
  then have "MAX_TIME_VALUE < t1 + 2 ^ (read_retryCount md + 1) * 1000" by simp
  from handle_retry_out_of_range [OF assms(1) this, of t0 source b]
  show ?thesis using False by simp
qed

theorem backoff_delay_witness:
  "below_max (read_retryCount (sample_message\<lparr>md_retryCount := Some 2\<rparr>)) (MAX_RETRIES default_env)
   \<and> can_publish ''kafka'' ready_broker
   \<and> fst (handleFailedMessage default_env 5 7 ''kafka''
         (sample_message\<lparr>md_retryCount := Some 2\<rparr>) ready_broker)
   \<and> retry_delays (snd (handleFailedMessage default_env 5 7 ''kafka''
         (sample_message\<lparr>md_retryCount := Some 2\<rparr>) ready_broker)) = [8000]
   \<and> \<not> fst (handleFailedMessage default_env 5 8640000000000000 ''kafka''
         (sample_message\<lparr>md_retryCount := Some 2\<rparr>) ready_broker)
   \<and> retry_delays (snd (handleFailedMessage default_env 5 8640000000000000 ''kafka''
         (sample_message\<lparr>md_retryCount := Some 2\<rparr>) ready_broker)) = []"
proof -
  let ?md = "sample_message\<lparr>md_retryCount := Some 2\<rparr>"
  have a: "below_max (read_retryCount ?md) (MAX_RETRIES default_env)"
    by (simp add: below_max_def read_retryCount_def default_env_def)
  have b: "can_publish ''kafka'' ready_broker"
    by (simp add: can_publish_def ready_broker_def)
  have c: "retry_delays ready_broker = []"
    by (simp add: retry_delays_def published_def ready_broker_def)
  have d: "read_retryCount ?md = 2"
    by (simp add: read_retryCount_def)
  from backoff_delay [OF a b, of 5 7]
  have "fst (handleFailedMessage default_env 5 7 ''kafka'' ?md ready_broker)
      \<and> retry_delays (snd (handleFailedMessage default_env 5 7 ''kafka'' ?md ready_broker))
          = [8000]"
    by (simp add: c d MAX_TIME_VALUE_def)
  moreover from backoff_delay [OF a b, of 5 8640000000000000]
  have "\<not> fst (handleFailedMessage default_env 5 8640000000000000 ''kafka'' ?md ready_broker)
      \<and> retry_delays (snd (handleFailedMessage default_env 5 8640000000000000 ''kafka'' ?md
            ready_broker)) = []"
    by (simp add: c d MAX_TIME_VALUE_def)
  ultimately show ?thesis using a b by simp
qed

text \<open>
  Claim C9. The record that \<open>sendToDeadLetterQueue\<close> republishes is the incoming error
  record with two fields added, \<open>movedToDLQ\<close> (the current instant) and
  \<open>finalStatus = 'failed'\<close>: cut back to the fields of an error record it is the incoming
  record. It goes to the dead-letter destination of the source protocol, as one publish.
\<close>

theorem dead_letter_frame:
  assumes "can_publish source b"
  shows "\<exists>b' d. sendToDeadLetterQueue e now source errorMessage b = Inr b'
            \<and> published b' = published b @ [(dlq_destination e source, DeadLetterPayload d)]
            \<and> error_message.truncate d = errorMessage
            \<and> movedToDLQ d = now \<and> finalStatus d = ''failed''"
  using assms
  by (cases errorMessage)
     (auto simp: sendToDeadLetterQueue_def publishToKafka_def publishMessage_def
        publishToQueue_def publishToRabbitMQ_def assertQueue_def can_publish_def published_def
        Let_def dlq_destination_def error_message.extend_def dlq_message.fields_def
        error_message.truncate_def)

theorem dead_letter_frame_witness:
  "can_publish ''kafka'' ready_broker
   \<and> (\<exists>b' d. sendToDeadLetterQueue default_env 9 ''kafka'' sample_error_message ready_broker
                  = Inr b'
            \<and> published b' = published ready_broker
                 @ [(dlq_destination default_env ''kafka'', DeadLetterPayload d)]
            \<and> error_message.truncate d = sample_error_message
            \<and> movedToDLQ d = 9 \<and> finalStatus d = ''failed'')"
proof -
  have a: "can_publish ''kafka'' ready_broker" by (simp add: can_publish_def ready_broker_def)
  from dead_letter_frame [OF a, of default_env 9 sample_error_message] a
  show ?thesis by (intro conjI)
qed

section \<open>Consumers: registration and transaction ids\<close>

text \<open>Calls made one after the other: once a call has returned a handle, the next call
  for the same source returns that handle and changes nothing.\<close>

lemma createConsumer_registers:
  "createConsumer topic g t s = (Inr h, s1) \<Longrightarrow> activeConsumers s1 topic = Some h"
  by (auto simp: createConsumer_def createConsumer_begin_def createConsumer_resume_def
        createKafkaConsumer_begin_def createKafkaConsumer_resume_def Let_def
        split: option.splits if_splits)

lemma createConsumer_again:
  "createConsumer topic g1 t1 s = (Inr h, s1) \<Longrightarrow> createConsumer topic g2 t2 s1 = (Inr h, s1)"
  using createConsumer_registers [of topic g1 t1 s h s1]
  by (simp add: createConsumer_def createConsumer_begin_def createConsumer_resume_def)

lemma createQueueConsumer_registers:
  "createQueueConsumer queue r = (Inr c, r1) \<Longrightarrow> activeQueueConsumers r1 queue = Some c"
  by (auto simp: createQueueConsumer_def createQueueConsumer_begin_def
        createQueueConsumer_resume_def createRabbitMQConsumer_begin_def
        createRabbitMQConsumer_resume_def Let_def
        split: option.splits if_splits)

lemma createQueueConsumer_again:
  "createQueueConsumer queue r = (Inr c, r1) \<Longrightarrow> createQueueConsumer queue r1 = (Inr c, r1)"
  using createQueueConsumer_registers [of queue r c r1]
  by (simp add: createQueueConsumer_def createQueueConsumer_begin_def
        createQueueConsumer_resume_def)

text \<open>
  Claim C8, what the code does. The look-up in \<open>activeConsumers\<close> and the registration
  are separated by an \<open>await\<close>. When a second call for a source is made while the first
  one is waiting, both find no entry, both create a consumer, and the two calls return
  different handles: the source has two live consumers, and the map keeps the second.
  This holds for the Kafka adapter (topics) and for the RabbitMQ adapter (queues), from
  every state with the broker reachable and no consumer registered for the source.
\<close>

theorem overlapping_subscribe:
  assumes "activeConsumers s topic = None" and "kafkaClient s" and "kafka_reachable s"
    and "activeQueueConsumers r queue = None" and "connection r" and "rabbitmq_reachable r"
  shows "(\<exists>c1 c2 s'. createConsumer_overlapping topic g1 t1 g2 t2 s = (Inr c1, Inr c2, s')
            \<and> c1 \<noteq> c2 \<and> consumers s' = consumers s @ [c1, c2]
            \<and> activeConsumers s' topic = Some c2)
       \<and> (\<exists>c1 c2 r'. createQueueConsumer_overlapping queue r = (Inr c1, Inr c2, r')
            \<and> c1 \<noteq> c2 \<and> consumerChannels r' = consumerChannels r @ [c1, c2]
            \<and> activeQueueConsumers r' queue = Some c2)"
  using assms
  by (simp add: createConsumer_overlapping_def createConsumer_begin_def
        createConsumer_resume_def createKafkaConsumer_begin_def createKafkaConsumer_resume_def
        createQueueConsumer_overlapping_def createQueueConsumer_begin_def
        createQueueConsumer_resume_def createRabbitMQConsumer_begin_def
        createRabbitMQConsumer_resume_def Let_def)

theorem overlapping_subscribe_witness:
  "activeConsumers fresh_kafka ''orders'' = None \<and> kafkaClient fresh_kafka
   \<and> kafka_reachable fresh_kafka
   \<and> activeQueueConsumers fresh_rabbitmq ''tasks'' = None \<and> connection fresh_rabbitmq
   \<and> rabbitmq_reachable fresh_rabbitmq
   \<and> (\<exists>c1 c2 s'. createConsumer_overlapping ''orders'' (Some ''g'') 1 (Some ''g'') 2 fresh_kafka
                     = (Inr c1, Inr c2, s')
         \<and> c1 \<noteq> c2 \<and> consumers s' = [c1, c2])
   \<and> (\<exists>c1 c2 r'. createQueueConsumer_overlapping ''tasks'' fresh_rabbitmq = (Inr c1, Inr c2, r')
         \<and> c1 \<noteq> c2 \<and> consumerChannels r' = [c1, c2])"
proof -
  have k: "activeConsumers fresh_kafka ''orders'' = None" "kafkaClient fresh_kafka"
    "kafka_reachable fresh_kafka" "consumers fresh_kafka = []"
    by (simp_all add: fresh_kafka_def)
  have q: "activeQueueConsumers fresh_rabbitmq ''tasks'' = None" "connection fresh_rabbitmq"
    "rabbitmq_reachable fresh_rabbitmq" "consumerChannels fresh_rabbitmq = []"
    by (simp_all add: fresh_rabbitmq_def)
  from overlapping_subscribe [OF k(1) k(2) k(3) q(1) q(2) q(3), of "Some ''g''" 1 "Some ''g''" 2]
  have "(\<exists>c1 c2 s'. createConsumer_overlapping ''orders'' (Some ''g'') 1 (Some ''g'') 2 fresh_kafka
                     = (Inr c1, Inr c2, s')
         \<and> c1 \<noteq> c2 \<and> consumers s' = [c1, c2])
   \<and> (\<exists>c1 c2 r'. createQueueConsumer_overlapping ''tasks'' fresh_rabbitmq = (Inr c1, Inr c2, r')
         \<and> c1 \<noteq> c2 \<and> consumerChannels r' = [c1, c2])"
    by (simp only: k(4) q(4) append_Nil) blast
  with k q show ?thesis by simp
qed

text \<open>Two numbers with the same decimal rendering are equal.\<close>

lemma digit_char_inj: "a < 10 \<Longrightarrow> b < 10 \<Longrightarrow> digit_char a = digit_char b \<Longrightarrow> a = b"
proof -
  assume a: "a < 10" and b: "b < 10" and e: "digit_char a = digit_char b"
  from e have "(of_char (digit_char a) :: nat) = of_char (digit_char b)" by simp
  with a b show "a = b" by (simp add: digit_char_def)
qed

lemma decimal_nonempty: "decimal n \<noteq> []"
  by (subst decimal.simps) simp

lemma decimal_inj: "decimal n = decimal m \<Longrightarrow> n = m"
proof (induction n arbitrary: m rule: decimal.induct)
  case (1 n)
  show ?case
  proof (cases "n < 10")
    case True
    show ?thesis
    proof (cases "m < 10")
      case m: True
      from 1(2) True m have "digit_char n = digit_char m"
        by (subst (asm) decimal.simps, subst (asm) (2) decimal.simps) simp
      with True m show ?thesis using digit_char_inj by blast
    next
      case False
      from 1(2) True False
      have "[digit_char n] = decimal (m div 10) @ [digit_char (m mod 10)]"
        by (subst (asm) decimal.simps, subst (asm) (2) decimal.simps) simp
      then show ?thesis using decimal_nonempty [of "m div 10"] by simp
    qed
  next
    case False
    show ?thesis
    proof (cases "m < 10")
      case True
      from 1(2) True False
      have "decimal (n div 10) @ [digit_char (n mod 10)] = [digit_char m]"
        by (subst (asm) decimal.simps, subst (asm) (2) decimal.simps) simp
      then show ?thesis using decimal_nonempty [of "n div 10"] by simp
    next
      case m: False
      from 1(2) False m
      have "decimal (n div 10) @ [digit_char (n mod 10)]
              = decimal (m div 10) @ [digit_char (m mod 10)]"
        by (subst (asm) decimal.simps, subst (asm) (2) decimal.simps) simp
      then have a: "decimal (n div 10) = decimal (m div 10)"
        and b: "digit_char (n mod 10) = digit_char (m mod 10)"
        by simp_all
      from 1(1) [OF False a] have "n div 10 = m div 10" .
      moreover from b have "n mod 10 = m mod 10" by (intro digit_char_inj) simp_all
      ultimately show ?thesis by (metis div_mult_mod_eq)
    qed
  qed
qed

text \<open>
  Claim C7, as stated: the transaction id of a message is assigned once and a retried
  delivery carries the same id. The consumer's handler computes the id when it is handed
  a message, from the source, the offset and the clock: the message at offset 42 of topic
  \<open>orders\<close>, delivered at instant 1 and again at instant 2, gets two different ids.
\<close>

theorem transactionId_regenerated_counterexample:
  "kafka_handler_transactionId ''orders'' ''42'' 1 = ''kafka-orders-42-1''
   \<and> kafka_handler_transactionId ''orders'' ''42'' 2 = ''kafka-orders-42-2''
   \<and> kafka_handler_transactionId ''orders'' ''42'' 1
       \<noteq> kafka_handler_transactionId ''orders'' ''42'' 2
   \<and> rabbitmq_handler_transactionId ''tasks'' 1 \<noteq> rabbitmq_handler_transactionId ''tasks'' 2"
  by code_simp

text \<open>
  Claim C7, amended: the consumer's handler computes a transaction id for every delivery,
  from the source name, the offset (Kafka) and the instant of the delivery, so two
  deliveries of one message at different instants carry different ids. What a retry
  keeps is the failed message itself: when a retry is scheduled (the count read is below
  \<open>MAX_RETRIES\<close>, the producer is up and the retry instant is a time value that a \<open>Date\<close>
  can hold), the retry record holds the original message of the error record, with the
  headers the message arrived with, the same source and error, and \<open>retryCount\<close>
  incremented by one.
\<close>

theorem transactionId_per_delivery:
  assumes "t \<noteq> t'" and "below_max (read_retryCount messageData) (MAX_RETRIES e)"
    and "can_publish source b"
    and "t1 + 2 ^ (read_retryCount messageData + 1) * 1000 \<le> MAX_TIME_VALUE"
  shows "kafka_handler_transactionId topic offset t \<noteq> kafka_handler_transactionId topic offset t'
     \<and> rabbitmq_handler_transactionId queue t \<noteq> rabbitmq_handler_transactionId queue t'
     \<and> (\<exists>b' r. handleFailedMessage e t0 t1 source messageData b = (True, b')
            \<and> published b' = published b @ [(retry_destination e source, RetryPayload r)]
            \<and> em_originalMessage r = em_originalMessage (build_error_message t0 source messageData)
            \<and> original_headers (em_originalMessage r)
                = (if source = ''kafka'' then or_empty (rm_headers (md_message messageData))
                   else or_empty (rm_properties (md_message messageData)))
            \<and> em_source r = source \<and> em_error r = md_error messageData
            \<and> em_timestamp r = t0
            \<and> em_retryCount r = read_retryCount messageData + 1)"
proof -
  have "decimal t \<noteq> decimal t'" using assms(1) decimal_inj by blast
  then have ids:
    "kafka_handler_transactionId topic offset t \<noteq> kafka_handler_transactionId topic offset t'"
    "rabbitmq_handler_transactionId queue t \<noteq> rabbitmq_handler_transactionId queue t'"
    by (simp_all add: kafka_handler_transactionId_def rabbitmq_handler_transactionId_def)
  from handle_retry [OF assms(2) assms(3) assms(4), of t0] obtain b' r where
    h: "handleFailedMessage e t0 t1 source messageData b = (True, b')"
    and p: "published b' = published b @ [(retry_destination e source, RetryPayload r)]"
    and tr: "error_message.truncate r = (build_error_message t0 source messageData)
               \<lparr>em_retryCount := read_retryCount messageData + 1\<rparr>"
    by blast
  have sel: "em_originalMessage r = em_originalMessage (error_message.truncate r)"
    "em_source r = em_source (error_message.truncate r)"
    "em_error r = em_error (error_message.truncate r)"
    "em_timestamp r = em_timestamp (error_message.truncate r)"
    "em_retryCount r = em_retryCount (error_message.truncate r)"
    by (simp_all add: error_message.truncate_def)
  have f: "em_originalMessage r = em_originalMessage (build_error_message t0 source messageData)"
    "em_source r = source" "em_error r = md_error messageData" "em_timestamp r = t0"
    "em_retryCount r = read_retryCount messageData + 1"
    unfolding sel tr by (simp_all add: build_error_message_def)
  have hd: "original_headers (em_originalMessage r)
                = (if source = ''kafka'' then or_empty (rm_headers (md_message messageData))
                   else or_empty (rm_properties (md_message messageData)))"
    unfolding f(1) by (simp add: build_error_message_def original_headers_def Let_def)
  have "\<exists>b' r. handleFailedMessage e t0 t1 source messageData b = (True, b')
            \<and> published b' = published b @ [(retry_destination e source, RetryPayload r)]
            \<and> em_originalMessage r = em_originalMessage (build_error_message t0 source messageData)
            \<and> original_headers (em_originalMessage r)
                = (if source = ''kafka'' then or_empty (rm_headers (md_message messageData))
                   else or_empty (rm_properties (md_message messageData)))
            \<and> em_source r = source \<and> em_error r = md_error messageData
            \<and> em_timestamp r = t0
            \<and> em_retryCount r = read_retryCount messageData + 1"
    by (intro exI [of _ b'] exI [of _ r] conjI h p f hd)
  with ids show ?thesis by (intro conjI)
qed

theorem transactionId_per_delivery_witness:
  "(1::nat) \<noteq> 2 \<and> below_max (read_retryCount sample_message) (MAX_RETRIES default_env)
   \<and> can_publish ''kafka'' ready_broker
   \<and> 7 + 2 ^ (read_retryCount sample_message + 1) * 1000 \<le> MAX_TIME_VALUE
   \<and> kafka_handler_transactionId ''orders'' ''42'' 1
       \<noteq> kafka_handler_transactionId ''orders'' ''42'' 2
   \<and> (\<exists>b' r. handleFailedMessage default_env 5 7 ''kafka'' sample_message ready_broker
                  = (True, b')
            \<and> published b' = [(''streambridge.retry'', RetryPayload r)]
            \<and> original_headers (em_originalMessage r) = [(''x-transaction-id'', ''tx-1'')]
            \<and> em_retryCount r = 1)"
proof -
  have a: "(1::nat) \<noteq> 2" by simp
  have b: "below_max (read_retryCount sample_message) (MAX_RETRIES default_env)"
    by (simp add: below_max_def read_retryCount_def sample_message_def default_env_def)
  have c: "can_publish ''kafka'' ready_broker" by (simp add: can_publish_def ready_broker_def)
  have d: "or_empty (rm_headers (md_message sample_message)) = [(''x-transaction-id'', ''tx-1'')]"
    by (simp add: or_empty_def sample_message_def)
  have e: "read_retryCount sample_message = 0"
    by (simp add: read_retryCount_def sample_message_def)
  have f: "published ready_broker = []"
    "retry_destination default_env ''kafka'' = ''streambridge.retry''"
    by (simp_all add: published_def ready_broker_def retry_destination_def default_env_def)
  have g: "7 + 2 ^ (read_retryCount sample_message + 1) * 1000 \<le> MAX_TIME_VALUE"
    by (simp add: e MAX_TIME_VALUE_def)
  from transactionId_per_delivery [OF a b c g, of "''orders''" "''42''" "''q''" 5]
  obtain b' r where
    "kafka_handler_transactionId ''orders'' ''42'' 1
       \<noteq> kafka_handler_transactionId ''orders'' ''42'' 2"
    "handleFailedMessage default_env 5 7 ''kafka'' sample_message ready_broker = (True, b')"
    "published b' = [(''streambridge.retry'', RetryPayload r)]"
    "original_headers (em_originalMessage r) = [(''x-transaction-id'', ''tx-1'')]"
    "em_retryCount r = 1"
    by (auto simp: d e f)
  with a b c g show ?thesis by blast
qed

section \<open>Fan-out hub: who receives a broadcast\<close>

lemma broadcast_each_filter:
  "broadcast_each f topics cs (n, sent)
   = (n + length (filter (delivers f topics) cs), sent @ filter (delivers f topics) cs)"
  by (induction cs arbitrary: n sent) (auto simp: delivers_def)

lemma broadcast_filter:
  "wss srv \<Longrightarrow> broadcast srv topics =
     (let f = (case topics of None \<Rightarrow> False | Some ts \<Rightarrow> ts \<noteq> []);
          ts = (case topics of None \<Rightarrow> [] | Some ts \<Rightarrow> ts)
      in (Some (length (filter (delivers f ts) (clients srv))),
          filter (delivers f ts) (clients srv)))"
  by (simp add: broadcast_def broadcast_each_filter Let_def split: option.splits)

lemma hasMatchingTopic_iff:
  "topics \<noteq> [] \<Longrightarrow> hasMatchingTopic topics c
     \<longleftrightarrow> set (client_topics c) \<inter> set topics \<noteq> {} \<or> ''*'' \<in> set (client_topics c)"
  by (cases topics) (auto simp: hasMatchingTopic_def list_ex_iff)

text \<open>
  Claim C5. With the server initialised and a non-empty topic list, a client of the
  registry whose socket is open (and whose \<open>send\<close> does not throw) is sent the message if
  and only if one of its topics is in the list or its topics contain \<open>"*"\<close>. The value
  returned is the number of clients the message was sent to.
\<close>

theorem broadcast_matching:
  assumes "wss srv" and "topics \<noteq> []" and "c \<in> set (clients srv)"
    and "readyState c = OPEN" and "\<not> send_throws c"
  shows "(c \<in> set (snd (broadcast srv (Some topics)))
            \<longleftrightarrow> set (client_topics c) \<inter> set topics \<noteq> {} \<or> ''*'' \<in> set (client_topics c))
       \<and> fst (broadcast srv (Some topics)) = Some (length (snd (broadcast srv (Some topics))))"
  using assms hasMatchingTopic_iff [OF assms(2), of c]
  by (simp add: broadcast_filter delivers_def)

theorem broadcast_matching_witness:
  "wss hub \<and> [''orders'', ''kafka'', ''all''] \<noteq> [] \<and> orders_client \<in> set (clients hub)
   \<and> readyState orders_client = OPEN \<and> \<not> send_throws orders_client
   \<and> (orders_client \<in> set (snd (broadcast hub (Some [''orders'', ''kafka'', ''all''])))
        \<longleftrightarrow> set (client_topics orders_client) \<inter> set [''orders'', ''kafka'', ''all''] \<noteq> {}
            \<or> ''*'' \<in> set (client_topics orders_client))
   \<and> fst (broadcast hub (Some [''orders'', ''kafka'', ''all'']))
       = Some (length (snd (broadcast hub (Some [''orders'', ''kafka'', ''all'']))))"
proof -
  have a: "wss hub" by (simp add: hub_def)
  have b: "[''orders'', ''kafka'', ''all''] \<noteq> []" by simp
  have c: "orders_client \<in> set (clients hub)" by (simp add: hub_def)
  have d: "readyState orders_client = OPEN" by (simp add: orders_client_def)
  have e: "\<not> send_throws orders_client" by (simp add: orders_client_def)
  from broadcast_matching [OF a b c d e] a b c d e show ?thesis by blast
qed

text \<open>
  Claim C10. With the server initialised and a topic argument that is an empty list or
  not an array, no client is filtered by topic: every client of the registry whose socket
  is open (and whose \<open>send\<close> does not throw) is sent the message, whatever its topics,
  also when it has none. The value returned counts exactly those clients.
\<close>

theorem broadcast_unfiltered:
  assumes "wss srv" and "topics = None \<or> topics = Some []" and "c \<in> set (clients srv)"
    and "readyState c = OPEN" and "\<not> send_throws c"
  shows "c \<in> set (snd (broadcast srv topics))
       \<and> fst (broadcast srv topics)
           = Some (length (filter (\<lambda>c. readyState c = OPEN \<and> \<not> send_throws c) (clients srv)))"
proof -
  have "delivers False ts = (\<lambda>c. readyState c = OPEN \<and> \<not> send_throws c)" for ts
    by (simp add: fun_eq_iff delivers_def)
  with assms show ?thesis by (auto simp: broadcast_filter)
qed

theorem broadcast_unfiltered_witness:
  "wss hub \<and> (Some [] = None \<or> Some [] = Some ([] :: string list))
   \<and> silent_client \<in> set (clients hub)
   \<and> readyState silent_client = OPEN \<and> \<not> send_throws silent_client
   \<and> client_topics silent_client = []
   \<and> silent_client \<in> set (snd (broadcast hub (Some [])))"
proof -
  have a: "wss hub" by (simp add: hub_def)
  have b: "Some [] = None \<or> Some [] = Some ([] :: string list)" by simp
  have c: "silent_client \<in> set (clients hub)" by (simp add: hub_def)
  have d: "readyState silent_client = OPEN" by (simp add: silent_client_def)
  have e: "\<not> send_throws silent_client" by (simp add: silent_client_def)
  have f: "client_topics silent_client = []" by (simp add: silent_client_def)
  from broadcast_unfiltered [OF a b c d e] a b c d e f show ?thesis by blast
qed

section \<open>Outbound pipeline: the validation gate\<close>

text \<open>
  Claim C6. With validation enabled, a payload that the validator rejects and
  \<open>requireValidation\<close> set, \<open>produceMessage\<close> fails with the validation error and has made
  no broker call (and no broadcast). The HTTP controller rejects a payload that fails
  validation with status 400, whatever \<open>requireValidation\<close> says, and leaves brokers and
  hub untouched.
\<close>

theorem validation_gate:
  assumes "VALIDATE_MESSAGES"
    and "\<not> valid (validateMessage (or_else (opt_messageType options) ''default'') message)"
    and "opt_requireValidation options"
  shows "fst (produceMessage VALIDATE_MESSAGES validateMessage rnd now topic message options s)
           = Inl (Error (''Message validation failed: '' @ validation_error
                 (validateMessage (or_else (opt_messageType options) ''default'') message)))
       \<and> broker_calls (snd (produceMessage VALIDATE_MESSAGES validateMessage rnd now topic
                message options s)) = broker_calls s
       \<and> broadcasts (snd (produceMessage VALIDATE_MESSAGES validateMessage rnd now topic
                message options s)) = broadcasts s
       \<and> (\<not> valid (validateMessage
                (case req_messageType req of None \<Rightarrow> ''default'' | Some t \<Rightarrow> t)
                (or_else (req_message req) []))
            \<longrightarrow> status (fst (controller_publishMessage VALIDATE_MESSAGES validateMessage rnd now
                   req s)) = 400
                \<and> snd (controller_publishMessage VALIDATE_MESSAGES validateMessage rnd now req s) = s)"
  using assms
  by (simp add: produceMessage_def controller_publishMessage_def Let_def)

theorem validation_gate_witness:
  "fst (produceMessage True reject_all ''ab'' 7 ''orders'' ''{items:[]}'' strict_options connected)
     = Inl (Error ''Message validation failed: data must have required property orderId'')
   \<and> broker_calls (snd (produceMessage True reject_all ''ab'' 7 ''orders'' ''{items:[]}''
         strict_options connected)) = []
   \<and> status (fst (controller_publishMessage True reject_all ''ab'' 7 order_request connected)) = 400
   \<and> snd (controller_publishMessage True reject_all ''ab'' 7 order_request connected) = connected"
proof -
  have a: "\<not> valid (reject_all (or_else (opt_messageType strict_options) ''default'') ''{items:[]}'')"
    by (simp add: reject_all_def)
  have b: "opt_requireValidation strict_options" by (simp add: strict_options_def)
  have c: "\<not> valid (reject_all
                (case req_messageType order_request of None \<Rightarrow> ''default'' | Some t \<Rightarrow> t)
                (or_else (req_message order_request) []))"
    by (simp add: reject_all_def)
  from validation_gate [where VALIDATE_MESSAGES = True and validateMessage = reject_all
      and options = strict_options and message = "''{items:[]}''" and rnd = "''ab''" and now = 7
      and topic = "''orders''" and s = connected and req = order_request, OF TrueI a b] c
  show ?thesis by (simp add: reject_all_def connected_def)
qed
section \<open>Envelope codec: round trip and rejection\<close>

subsection \<open>Base64 and the colon-separated layout\<close>

lemma unat_byte_less: "unat (a :: byte) < 256"
  using unsigned_less [of a, where 'a = nat] by simp

lemma pack1:
  assumes "y < 256"
  shows "x div 4 * 4 + (x mod 4 * 16 + y div 16) div 16 = (x::nat)"
proof -
  have "y div 16 < 16" using assms by simp
  then have "(x mod 4 * 16 + y div 16) div 16 = x mod 4" by simp
  then show ?thesis by simp
qed

lemma pack2:
  assumes "y < 256" "z < 256"
  shows "(x mod 4 * 16 + y div 16) mod 16 * 16 + (y mod 16 * 4 + z div 64) div 4 = (y::nat)"
proof -
  have "z div 64 < 4" using assms by simp
  then have a: "(y mod 16 * 4 + z div 64) div 4 = y mod 16" by simp
  have "y div 16 < 16" using assms by simp
  then have b: "(x mod 4 * 16 + y div 16) mod 16 = y div 16" by simp
  show ?thesis unfolding a b by simp
qed

lemma pack3:
  assumes "z < 256"
  shows "(y mod 16 * 4 + z div 64) mod 4 * 64 + z mod 64 = (z::nat)"
proof -
  have "z div 64 < 4" using assms by simp
  then have "(y mod 16 * 4 + z div 64) mod 4 = z div 64" by simp
  then show ?thesis by simp
qed

lemma sextet1: "x < 256 \<Longrightarrow> x div 4 < (64::nat)"
  by simp

lemma sextet2: "y < 256 \<Longrightarrow> x mod 4 * 16 + y div 16 < (64::nat)"
proof -
  assume "y < 256"
  then have "y div 16 < 16" by simp
  moreover have "x mod 4 < 4" by simp
  ultimately show ?thesis by linarith
qed

lemma sextet3: "z < 256 \<Longrightarrow> y mod 16 * 4 + z div 64 < (64::nat)"
proof -
  assume "z < 256"
  then have "z div 64 < 4" by simp
  moreover have "y mod 16 < 16" by simp
  ultimately show ?thesis by linarith
qed

lemma sextet2': "x mod 4 * 16 < (64::nat)"
  using sextet2 [of 0 x] by simp

lemma sextet3': "y mod 16 * 4 < (64::nat)"
  using sextet3 [of 0 y] by simp

lemmas sextet_facts = sextet1 sextet2 sextet3 sextet2' sextet3' unat_byte_less

lemma b64_value_b64_char: "v < 64 \<Longrightarrow> b64_value (b64_char v) = Some v"
  by (auto simp: b64_value_def b64_char_def Let_def)

lemma b64_value_pad: "b64_value CHR ''='' = None"
  by (simp add: b64_value_def)

lemma b64_value_colon: "b64_value CHR '':'' = None"
  by (simp add: b64_value_def)

lemma b64_char_not_pad: "v < 64 \<Longrightarrow> b64_char v \<noteq> CHR ''=''"
  using b64_value_b64_char [of v] b64_value_pad by auto

lemma b64_char_not_colon: "v < 64 \<Longrightarrow> b64_char v \<noteq> CHR '':''"
  using b64_value_b64_char [of v] b64_value_colon by auto

lemma sextets_char: "v < 64 \<Longrightarrow> b64_sextets (b64_char v # cs) = v # b64_sextets cs"
  by (simp add: b64_value_b64_char b64_char_not_pad)

lemma sextets_pad: "b64_sextets (CHR ''='' # cs) = []"
  by simp

text \<open>Decoding the Base64 text of a buffer gives the buffer back.\<close>

lemma fromBase64_toBase64: "fromBase64 (toBase64 bs) = bs"
  unfolding fromBase64_def
proof (induction bs rule: toBase64.induct)
  case 1
  show ?case by simp
next
  case (2 a)
  have "b64_sextets (toBase64 [a]) = [unat a div 4, unat a mod 4 * 16]"
    by (simp add: sextets_char sextets_pad sextet_facts del: b64_sextets.simps)
  then show ?case using pack1 [of 0 "unat a"] by simp
next
  case (3 a b)
  have "b64_sextets (toBase64 [a, b])
        = [unat a div 4, unat a mod 4 * 16 + unat b div 16, unat b mod 16 * 4]"
    by (simp add: sextets_char sextets_pad sextet_facts del: b64_sextets.simps)
  then show ?case
    using pack1 [of "unat b" "unat a"] pack2 [of "unat b" 0 "unat a"]
    by (simp add: unat_byte_less)
next
  case (4 a b c rest)
  have "b64_sextets (toBase64 (a # b # c # rest))
        = [unat a div 4, unat a mod 4 * 16 + unat b div 16,
           unat b mod 16 * 4 + unat c div 64, unat c mod 64] @ b64_sextets (toBase64 rest)"
    by (simp add: sextets_char sextets_pad sextet_facts del: b64_sextets.simps)
  then show ?case
    using pack1 [of "unat b" "unat a"] pack2 [of "unat b" "unat c" "unat a"]
      pack3 [of "unat c" "unat b"] 4
    by (simp add: unat_byte_less)
qed

text \<open>Base64 text has no colon, so the three parts of an envelope are found again.\<close>

lemma colon_free_toBase64: "CHR '':'' \<notin> set (toBase64 bs)"
  by (induction bs rule: toBase64.induct)
     (simp_all add: b64_char_not_colon [symmetric] b64_char_not_colon sextet_facts)

lemma toBase64_empty_iff: "toBase64 bs = [] \<longleftrightarrow> bs = []"
  by (induction bs rule: toBase64.induct) simp_all

lemma split_char_free: "sep \<notin> set s \<Longrightarrow> split_char sep s = [s]"
  by (induction s) (auto simp: Let_def)

lemma split_char_append:
  "sep \<notin> set a \<Longrightarrow> split_char sep (a @ sep # rest) = a # split_char sep rest"
  by (induction a) (auto simp: Let_def)

lemma split_frame:
  assumes "sep \<notin> set a" "sep \<notin> set b" "sep \<notin> set c"
  shows "split_char sep (a @ [sep] @ b @ [sep] @ c) = [a, b, c]"
  using assms by (simp add: split_char_append split_char_free)

lemma split_envelope:
  "split_char CHR '':'' (envelope iv tag ct) = [toBase64 iv, toBase64 tag, toBase64 ct]"
  unfolding envelope_def
  using split_frame [of "CHR '':''" "toBase64 iv" "toBase64 tag" "toBase64 ct"]
  by (simp add: colon_free_toBase64)

lemma authenticated_gcm: "authenticated_mode ''aes-256-gcm''"
  by (simp add: authenticated_mode_def)


subsection \<open>UTF-8: decoding the bytes of a well-formed string\<close>

lemma unat_byte_of_nat: "k < 256 \<Longrightarrow> unat (of_nat k :: byte) = k"
  by (simp add: unsigned_of_nat take_bit_nat_eq_self)

lemma lead1:
  "unat b < 128 \<Longrightarrow>
   utf8_decode_state 0 cp l u (b # bs) = of_nat (unat b) # utf8_decode_state 0 0 128 191 bs"
  by (simp add: Let_def)

lemma lead2:
  "194 \<le> unat b \<Longrightarrow> unat b \<le> 223 \<Longrightarrow>
   utf8_decode_state 0 cp l u (b # bs) = utf8_decode_state 1 (unat b mod 32) 128 191 bs"
  by (simp add: Let_def)

lemma lead3:
  "224 \<le> unat b \<Longrightarrow> unat b \<le> 239 \<Longrightarrow>
   utf8_decode_state 0 cp l u (b # bs) =
   utf8_decode_state 2 (unat b mod 16) (if unat b = 224 then 160 else 128)
     (if unat b = 237 then 159 else 191) bs"
  by (simp add: Let_def)

lemma lead4:
  "240 \<le> unat b \<Longrightarrow> unat b \<le> 244 \<Longrightarrow>
   utf8_decode_state 0 cp l u (b # bs) =
   utf8_decode_state 3 (unat b mod 8) (if unat b = 240 then 144 else 128)
     (if unat b = 244 then 143 else 191) bs"
  by (simp add: Let_def)

lemma continuation_last:
  "l \<le> unat b \<Longrightarrow> unat b \<le> u \<Longrightarrow>
   utf8_decode_state 1 cp l u (b # bs) =
   code_point_units (cp * 64 + unat b mod 64) @ utf8_decode_state 0 0 128 191 bs"
  by (simp add: Let_def)

lemma continuation_second:
  "l \<le> unat b \<Longrightarrow> unat b \<le> u \<Longrightarrow>
   utf8_decode_state 2 cp l u (b # bs) =
   utf8_decode_state 1 (cp * 64 + unat b mod 64) 128 191 bs"
  by (simp add: Let_def)

lemma continuation_third:
  "l \<le> unat b \<Longrightarrow> unat b \<le> u \<Longrightarrow>
   utf8_decode_state 3 cp l u (b # bs) =
   utf8_decode_state 2 (cp * 64 + unat b mod 64) 128 191 bs"
  by (simp add: Let_def)

lemma decode_end: "utf8_decode_state 0 cp l u [] = []"
  by simp

declare utf8_decode_state.simps [simp del]

lemma mod_lead2: "x < 32 \<Longrightarrow> (192 + x) mod 32 = (x::nat)"
  using mod_mult_self1 [of x 6 32] by (simp add: add.commute)

lemma mod_lead3: "x < 16 \<Longrightarrow> (224 + x) mod 16 = (x::nat)"
  using mod_mult_self1 [of x 14 16] by (simp add: add.commute)

lemma mod_lead4: "x < 8 \<Longrightarrow> (240 + x) mod 8 = (x::nat)"
  using mod_mult_self1 [of x 30 8] by (simp add: add.commute)

lemma mod_cont: "x < 64 \<Longrightarrow> (128 + x) mod 64 = (x::nat)"
  using mod_mult_self1 [of x 2 64] by (simp add: add.commute)

lemma div_mod_64: "y div 64 * 64 + y mod 64 = (y::nat)"
  by simp

text \<open>The bytes of a code point outside the surrogate range decode to its code units.\<close>

lemma decode1:
  assumes "cp < 128"
  shows "utf8_decode_state 0 0 128 191 (utf8_bytes cp @ bs) =
         code_point_units cp @ utf8_decode_state 0 0 128 191 bs"
proof -
  have u: "unat (of_nat cp :: byte) = cp" using assms by (intro unat_byte_of_nat) simp
  have "utf8_bytes cp = [of_nat cp]" using assms by (simp add: utf8_bytes_def)
  moreover have "code_point_units cp = [of_nat cp]" using assms by (simp add: code_point_units_def)
  moreover have "utf8_decode_state 0 0 128 191 ((of_nat cp :: byte) # bs) =
        of_nat cp # utf8_decode_state 0 0 128 191 bs"
    using lead1 [of "of_nat cp" 0 128 191 bs] assms by (simp add: u)
  ultimately show ?thesis by simp
qed

lemma decode2:
  assumes "128 \<le> cp" "cp < 2048"
  shows "utf8_decode_state 0 0 128 191 (utf8_bytes cp @ bs) =
         code_point_units cp @ utf8_decode_state 0 0 128 191 bs"
proof -
  define b1 :: byte where "b1 = of_nat (192 + cp div 64)"
  define b2 :: byte where "b2 = of_nat (128 + cp mod 64)"
  have d: "cp div 64 < 32" "2 \<le> cp div 64"
    using assms by (simp_all add: div_less_iff_less_mult less_eq_div_iff_mult_less_eq)
  have u1: "unat b1 = 192 + cp div 64"
    unfolding b1_def using d by (intro unat_byte_of_nat) linarith
  have u2: "unat b2 = 128 + cp mod 64"
    unfolding b2_def by (intro unat_byte_of_nat) simp
  have a: "(192 + cp div 64) mod 32 = cp div 64" using d by (simp only: mod_lead2)
  have b: "(128 + cp mod 64) mod 64 = cp mod 64" by (simp add: mod_cont)
  have c: "cp div 64 * 64 + cp mod 64 = cp" by simp
  have bytes: "utf8_bytes cp = [b1, b2]"
    using assms by (simp add: utf8_bytes_def b1_def b2_def del: of_nat_add)
  have s1: "utf8_decode_state 0 0 128 191 (b1 # b2 # bs) =
            utf8_decode_state 1 (cp div 64) 128 191 (b2 # bs)"
  proof -
    have "194 \<le> unat b1" "unat b1 \<le> 223" using d by (simp_all add: u1)
    from lead2 [OF this, of 0 128 191 "b2 # bs"] show ?thesis by (simp add: u1 a)
  qed
  have s2: "utf8_decode_state 1 (cp div 64) 128 191 (b2 # bs) =
            code_point_units cp @ utf8_decode_state 0 0 128 191 bs"
  proof -
    have "128 \<le> unat b2" "unat b2 \<le> 191" by (simp_all add: u2)
    from continuation_last [OF this, of "cp div 64" bs] show ?thesis by (simp add: u2 b c)
  qed
  show ?thesis by (simp only: bytes append_Cons append_Nil s1 s2)
qed

lemma decode3:
  assumes "2048 \<le> cp" "cp < 65536" "\<not> (55296 \<le> cp \<and> cp < 57344)"
  shows "utf8_decode_state 0 0 128 191 (utf8_bytes cp @ bs) =
         code_point_units cp @ utf8_decode_state 0 0 128 191 bs"
proof -
  define y where "y = cp div 64"
  define b1 :: byte where "b1 = of_nat (224 + y div 64)"
  define b2 :: byte where "b2 = of_nat (128 + y mod 64)"
  define b3 :: byte where "b3 = of_nat (128 + cp mod 64)"
  have z: "cp div 4096 = y div 64"
    unfolding y_def using div_mult2_eq [of cp 64 64] by simp
  have y: "32 \<le> y" "y < 1024" "\<not> (864 \<le> y \<and> y < 896)"
    unfolding y_def using assms
    by (simp_all add: div_less_iff_less_mult less_eq_div_iff_mult_less_eq)
  have d: "y div 64 < 16" using y by (simp add: div_less_iff_less_mult)
  have u1: "unat b1 = 224 + y div 64"
    unfolding b1_def using d by (intro unat_byte_of_nat) linarith
  have u2: "unat b2 = 128 + y mod 64"
    unfolding b2_def by (intro unat_byte_of_nat) simp
  have u3: "unat b3 = 128 + cp mod 64"
    unfolding b3_def by (intro unat_byte_of_nat) simp
  have bytes: "utf8_bytes cp = [b1, b2, b3]"
    using assms by (simp add: utf8_bytes_def b1_def b2_def b3_def z y_def del: of_nat_add)
  have low: "y div 64 = 0 \<Longrightarrow> 32 \<le> y mod 64"
    using y by simp
  have high: "y div 64 = 13 \<Longrightarrow> y mod 64 < 32"
    using y div_mod_64 [of y] by linarith
  have s1: "utf8_decode_state 0 0 128 191 (b1 # b2 # b3 # bs) =
            utf8_decode_state 2 (y div 64) (if y div 64 = 0 then 160 else 128)
              (if y div 64 = 13 then 159 else 191) (b2 # b3 # bs)"
  proof -
    have "224 \<le> unat b1" "unat b1 \<le> 239" using d by (simp_all add: u1)
    from lead3 [OF this, of 0 128 191 "b2 # b3 # bs"] show ?thesis
      using d by (simp add: u1 mod_lead3)
  qed
  have s2: "utf8_decode_state 2 (y div 64) (if y div 64 = 0 then 160 else 128)
              (if y div 64 = 13 then 159 else 191) (b2 # b3 # bs) =
            utf8_decode_state 1 y 128 191 (b3 # bs)"
  proof -
    have "(if y div 64 = 0 then 160 else 128) \<le> unat b2"
      using low by (simp add: u2)
    moreover have "unat b2 \<le> (if y div 64 = 13 then 159 else 191)"
    proof (cases "y div 64 = 13")
      case True
      with high show ?thesis by (simp add: u2)
    next
      case False
      have "y mod 64 < 64" by simp
      with False show ?thesis by (simp add: u2)
    qed
    ultimately show ?thesis
      using continuation_second [of _ b2 _ "y div 64" "b3 # bs"]
      by (simp add: u2 mod_cont)
  qed
  have s3: "utf8_decode_state 1 y 128 191 (b3 # bs) =
            code_point_units cp @ utf8_decode_state 0 0 128 191 bs"
  proof -
    have "128 \<le> unat b3" "unat b3 \<le> 191" by (simp_all add: u3)
    from continuation_last [OF this, of y bs] show ?thesis
      by (simp add: u3 mod_cont y_def)
  qed
  show ?thesis by (simp only: bytes append_Cons append_Nil s1 s2 s3)
qed

lemma decode4:
  assumes "65536 \<le> cp" "cp < 1114112"
  shows "utf8_decode_state 0 0 128 191 (utf8_bytes cp @ bs) =
         code_point_units cp @ utf8_decode_state 0 0 128 191 bs"
proof -
  define y where "y = cp div 64"
  define z where "z = y div 64"
  define b1 :: byte where "b1 = of_nat (240 + z div 64)"
  define b2 :: byte where "b2 = of_nat (128 + z mod 64)"
  define b3 :: byte where "b3 = of_nat (128 + y mod 64)"
  define b4 :: byte where "b4 = of_nat (128 + cp mod 64)"
  have z4096: "cp div 4096 = z"
    unfolding z_def y_def using div_mult2_eq [of cp 64 64] by simp
  have z262144: "cp div 262144 = z div 64"
    unfolding z4096 [symmetric] using div_mult2_eq [of cp 4096 64] by simp
  have z: "16 \<le> z" "z < 272"
    unfolding z4096 [symmetric] using assms
    by (simp_all add: div_less_iff_less_mult less_eq_div_iff_mult_less_eq)
  have d: "z div 64 < 8" using z by (simp add: div_less_iff_less_mult)
  have u1: "unat b1 = 240 + z div 64"
    unfolding b1_def using d by (intro unat_byte_of_nat) linarith
  have u2: "unat b2 = 128 + z mod 64"
    unfolding b2_def by (intro unat_byte_of_nat) simp
  have u3: "unat b3 = 128 + y mod 64"
    unfolding b3_def by (intro unat_byte_of_nat) simp
  have u4: "unat b4 = 128 + cp mod 64"
    unfolding b4_def by (intro unat_byte_of_nat) simp
  have bytes: "utf8_bytes cp = [b1, b2, b3, b4]"
    using assms
    by (simp add: utf8_bytes_def b1_def b2_def b3_def b4_def z4096 z262144 y_def
             del: of_nat_add)
  have low: "z div 64 = 0 \<Longrightarrow> 16 \<le> z mod 64"
    using z by simp
  have high: "z div 64 = 4 \<Longrightarrow> z mod 64 < 16"
    using z div_mod_64 [of z] by linarith
  have s1: "utf8_decode_state 0 0 128 191 (b1 # b2 # b3 # b4 # bs) =
            utf8_decode_state 3 (z div 64) (if z div 64 = 0 then 144 else 128)
              (if z div 64 = 4 then 143 else 191) (b2 # b3 # b4 # bs)"
  proof -
    have "240 \<le> unat b1" "unat b1 \<le> 244"
      using z by (simp_all add: u1 div_le_mono [of z 271 64, simplified])
    from lead4 [OF this, of 0 128 191 "b2 # b3 # b4 # bs"] show ?thesis
      using d by (simp add: u1 mod_lead4)
  qed
  have s2: "utf8_decode_state 3 (z div 64) (if z div 64 = 0 then 144 else 128)
              (if z div 64 = 4 then 143 else 191) (b2 # b3 # b4 # bs) =
            utf8_decode_state 2 z 128 191 (b3 # b4 # bs)"
  proof -
    have "(if z div 64 = 0 then 144 else 128) \<le> unat b2"
      using low by (simp add: u2)
    moreover have "unat b2 \<le> (if z div 64 = 4 then 143 else 191)"
    proof (cases "z div 64 = 4")
      case True
      with high show ?thesis by (simp add: u2)
    next
      case False
      have "z mod 64 < 64" by simp
      with False show ?thesis by (simp add: u2)
    qed
    ultimately show ?thesis
      using continuation_third [of _ b2 _ "z div 64" "b3 # b4 # bs"]
      by (simp add: u2 mod_cont)
  qed
  have s3: "utf8_decode_state 2 z 128 191 (b3 # b4 # bs) =
            utf8_decode_state 1 y 128 191 (b4 # bs)"
  proof -
    have "128 \<le> unat b3" "unat b3 \<le> 191" by (simp_all add: u3)
    from continuation_second [OF this, of z "b4 # bs"] show ?thesis
      by (simp add: u3 mod_cont z_def)
  qed
  have s4: "utf8_decode_state 1 y 128 191 (b4 # bs) =
            code_point_units cp @ utf8_decode_state 0 0 128 191 bs"
  proof -
    have "128 \<le> unat b4" "unat b4 \<le> 191" by (simp_all add: u4)
    from continuation_last [OF this, of y bs] show ?thesis
      by (simp add: u4 mod_cont y_def)
  qed
  show ?thesis by (simp only: bytes append_Cons append_Nil s1 s2 s3 s4)
qed

lemma decode_scalar:
  assumes "cp < 1114112" "\<not> is_high_surrogate cp" "\<not> is_low_surrogate cp"
  shows "utf8_decode_state 0 0 128 191 (utf8_bytes cp @ bs) =
         code_point_units cp @ utf8_decode_state 0 0 128 191 bs"
proof -
  consider "cp < 128" | "128 \<le> cp" "cp < 2048" | "2048 \<le> cp" "cp < 65536"
    | "65536 \<le> cp" by linarith
  then show ?thesis
  proof cases
    case 1 then show ?thesis by (rule decode1)
  next
    case 2 then show ?thesis by (rule decode2)
  next
    case 3
    moreover have "\<not> (55296 \<le> cp \<and> cp < 57344)"
      using assms unfolding is_high_surrogate_def is_low_surrogate_def by linarith
    ultimately show ?thesis by (rule decode3)
  next
    case 4 with assms(1) show ?thesis by (intro decode4)
  qed
qed

lemma unat_code_unit_less: "unat (c :: code_unit) < 65536"
  using unsigned_less [of c, where 'a = nat] by simp

lemma units_of_unit: "code_point_units (unat (c :: code_unit)) = [c]"
  using unat_code_unit_less [of c] by (simp add: code_point_units_def)

lemma units_of_pair:
  assumes "is_high_surrogate (unat (c :: code_unit))" "is_low_surrogate (unat (d :: code_unit))"
  shows "code_point_units (65536 + (unat c - 55296) * 1024 + (unat d - 56320)) = [c, d]"
proof -
  define h where "h = unat c - 55296"
  define l where "l = unat d - 56320"
  have c: "unat c = 55296 + h" and d: "unat d = 56320 + l" and l: "l < 1024"
    using assms unfolding h_def l_def is_high_surrogate_def is_low_surrogate_def by linarith+
  have "(h * 1024 + l) div 1024 = h" "(h * 1024 + l) mod 1024 = l" using l by simp_all
  moreover have "of_nat (55296 + h) = c" "of_nat (56320 + l) = d"
    using c [symmetric] d [symmetric] by (simp_all del: of_nat_add)
  ultimately show ?thesis
    unfolding h_def [symmetric] l_def [symmetric]
    by (simp add: code_point_units_def del: of_nat_add)
qed

lemma pair_range:
  assumes "is_high_surrogate (unat (c :: code_unit))" "is_low_surrogate (unat (d :: code_unit))"
  shows "65536 \<le> 65536 + (unat c - 55296) * 1024 + (unat d - 56320)"
    and "65536 + (unat c - 55296) * 1024 + (unat d - 56320) < 1114112"
  using assms unfolding is_high_surrogate_def is_low_surrogate_def by linarith+

lemma decode_state_encode:
  "well_formed P \<Longrightarrow> utf8_decode_state 0 0 128 191 (utf8_encode P) = P"
proof (induction P rule: utf8_encode.induct)
  case 1
  show ?case by (simp add: decode_end)
next
  case (2 c)
  then have "utf8_encode [c] = utf8_bytes (unat c) @ []" by simp
  moreover have "utf8_decode_state 0 0 128 191 (utf8_bytes (unat c) @ []) =
                 code_point_units (unat c) @ utf8_decode_state 0 0 128 191 []"
    using 2 unat_code_unit_less [of c] by (intro decode_scalar) simp_all
  ultimately show ?case by (simp add: units_of_unit decode_end)
next
  case (3 c d ds)
  show ?case
  proof (cases "is_high_surrogate (unat c)")
    case True
    with "3.prems" have low: "is_low_surrogate (unat d)" and wf: "well_formed ds" by simp_all
    let ?cp = "65536 + (unat c - 55296) * 1024 + (unat d - 56320)"
    have enc: "utf8_encode (c # d # ds) = utf8_bytes ?cp @ utf8_encode ds"
      using True low by simp
    have "utf8_decode_state 0 0 128 191 (utf8_bytes ?cp @ utf8_encode ds) =
          code_point_units ?cp @ utf8_decode_state 0 0 128 191 (utf8_encode ds)"
      using pair_range [OF True low] by (intro decode4)
    with "3.IH"(1) [OF True low wf] show ?thesis
      by (simp only: enc units_of_pair [OF True low] append_Cons append_Nil)
  next
    case False
    with "3.prems" have nl: "\<not> is_low_surrogate (unat c)" and wf: "well_formed (d # ds)"
      by simp_all
    have enc: "utf8_encode (c # d # ds) = utf8_bytes (unat c) @ utf8_encode (d # ds)"
      using False nl by simp
    have "utf8_decode_state 0 0 128 191 (utf8_bytes (unat c) @ utf8_encode (d # ds)) =
          code_point_units (unat c) @ utf8_decode_state 0 0 128 191 (utf8_encode (d # ds))"
      using False nl unat_code_unit_less [of c] by (intro decode_scalar) simp_all
    with "3.IH"(4) [OF False nl wf] show ?thesis
      by (simp only: enc units_of_unit append_Cons append_Nil)
  qed
qed

text \<open>Decoding the UTF-8 bytes of a well-formed string gives the string back.\<close>

lemma utf8_decode_encode: "well_formed P \<Longrightarrow> utf8_decode (utf8_encode P) = P"
  by (simp add: utf8_decode_def decode_state_encode)

subsection \<open>Envelopes\<close>

lemma encryptData_envelope:
  assumes "ENCRYPTION_ALGORITHM cfg = ''aes-256-gcm''"
    and "cipheriv_ok lib ''aes-256-gcm'' (utf8_encode (ENCRYPTION_KEY cfg)) iv"
  shows "encryptData lib cfg iv P =
     Inr (envelope iv
       (getAuthTag lib ''aes-256-gcm'' (utf8_encode (ENCRYPTION_KEY cfg)) iv
          (cipher_update lib ''aes-256-gcm'' (utf8_encode (ENCRYPTION_KEY cfg)) iv
             (utf8_encode P)))
       (cipher_update lib ''aes-256-gcm'' (utf8_encode (ENCRYPTION_KEY cfg)) iv
          (utf8_encode P)))"
  using assms by (simp add: encryptData_def envelope_def authenticated_gcm Let_def)


text \<open>What \<open>decryptData\<close> does with an envelope whose tag is not empty.\<close>

lemma decryptData_envelope:
  assumes "ENCRYPTION_ALGORITHM cfg = ''aes-256-gcm''" and "tag \<noteq> []"
  shows "decryptData lib cfg (envelope iv tag ct) =
     (if cipheriv_ok lib ''aes-256-gcm'' (utf8_encode (ENCRYPTION_KEY cfg)) iv
         \<and> setAuthTag_ok lib ''aes-256-gcm'' tag
         \<and> decipher_final_ok lib ''aes-256-gcm'' (utf8_encode (ENCRYPTION_KEY cfg)) iv
              (Some tag) ct
      then Inr (utf8_decode (decipher_update lib ''aes-256-gcm''
                  (utf8_encode (ENCRYPTION_KEY cfg)) iv ct))
      else Inl (Error ''Failed to decrypt data''))"
  unfolding decryptData_def Let_def split_envelope
  using assms by (simp add: authenticated_gcm fromBase64_toBase64 toBase64_empty_iff)



subsection \<open>The stand-in cipher keeps the platform's contract\<close>




subsection \<open>The two claims\<close>

text \<open>
  Claim C1, as stated: for every string payload, decrypting the encrypted payload gives
  the payload back. A JavaScript string may hold a surrogate that is not half of a pair,
  and the UTF-8 conversion writes U+FFFD for it: the string of the one code unit D800 is
  encrypted and decrypted without error, by a cipher that inverts and verifies, and comes
  back as the string of the one code unit FFFD.
\<close>

theorem round_trip_lone_surrogate_counterexample:
  "\<not> well_formed [55296]
   \<and> utf8_encode [55296] = [239, 191, 189]
   \<and> cipher_inverts stub_crypto (ENCRYPTION_ALGORITHM default_encryption_config)
        (utf8_encode (ENCRYPTION_KEY default_encryption_config)) sample_iv (utf8_encode [55296])
   \<and> encryptData stub_crypto default_encryption_config sample_iv [55296]
       = Inr (envelope sample_iv (replicate 16 8) [222, 142, 140])
   \<and> decryptData stub_crypto default_encryption_config
         (envelope sample_iv (replicate 16 8) [222, 142, 140]) = Inr [65533]
   \<and> [65533] \<noteq> [55296 :: code_unit]"
  by code_simp

text \<open>
  Claim C1, amended. Under the AES-256-GCM configuration, for every well-formed string
  \<open>P\<close> (every surrogate is half of a pair) and every IV that the encode call draws:
  \<open>encryptData\<close> returns an envelope and \<open>decryptData\<close> of that envelope returns \<open>P\<close>. The
  platform is taken at its contract for this encryption (\<open>cipher_inverts\<close>: key and IV
  accepted, decipher inverts cipher, the produced tag verifies).
\<close>

theorem decryptData_encryptData:
  assumes alg: "ENCRYPTION_ALGORITHM cfg = ''aes-256-gcm''"
    and lib: "cipher_inverts lib (ENCRYPTION_ALGORITHM cfg) (utf8_encode (ENCRYPTION_KEY cfg))
                iv (utf8_encode P)"
    and wf: "well_formed P"
  shows "\<exists>encrypted. encryptData lib cfg iv P = Inr encrypted
            \<and> decryptData lib cfg encrypted = Inr P"
proof -
  let ?key = "utf8_encode (ENCRYPTION_KEY cfg)"
  let ?ct = "cipher_update lib ''aes-256-gcm'' ?key iv (utf8_encode P)"
  let ?tag = "getAuthTag lib ''aes-256-gcm'' ?key iv ?ct"
  from lib alg have ok: "cipheriv_ok lib ''aes-256-gcm'' ?key iv"
    and inv: "decipher_update lib ''aes-256-gcm'' ?key iv ?ct = utf8_encode P"
    and ne: "?tag \<noteq> []"
    and tagok: "setAuthTag_ok lib ''aes-256-gcm'' ?tag"
    and fin: "decipher_final_ok lib ''aes-256-gcm'' ?key iv (Some ?tag) ?ct"
    by (simp_all add: cipher_inverts_def Let_def)
  have enc: "encryptData lib cfg iv P = Inr (envelope iv ?tag ?ct)"
    by (rule encryptData_envelope [OF alg ok])
  have dec: "decryptData lib cfg (envelope iv ?tag ?ct) = Inr P"
    by (simp add: decryptData_envelope [OF alg ne] ok tagok fin inv utf8_decode_encode [OF wf])
  from enc dec show ?thesis by blast
qed

theorem decryptData_encryptData_witness:
  "ENCRYPTION_ALGORITHM default_encryption_config = ''aes-256-gcm''
   \<and> cipher_inverts stub_crypto (ENCRYPTION_ALGORITHM default_encryption_config)
        (utf8_encode (ENCRYPTION_KEY default_encryption_config)) sample_iv
        (utf8_encode sample_text)
   \<and> well_formed sample_text
   \<and> length sample_iv = IV_LENGTH
   \<and> (\<exists>encrypted. encryptData stub_crypto default_encryption_config sample_iv sample_text
                      = Inr encrypted
         \<and> decryptData stub_crypto default_encryption_config encrypted = Inr sample_text)"
proof -
  have a: "ENCRYPTION_ALGORITHM default_encryption_config = ''aes-256-gcm''"
    by (simp add: default_encryption_config_def)
  have b: "cipher_inverts stub_crypto (ENCRYPTION_ALGORITHM default_encryption_config)
        (utf8_encode (ENCRYPTION_KEY default_encryption_config)) sample_iv
        (utf8_encode sample_text)"
    by code_simp
  have c: "well_formed sample_text"
    by code_simp
  have d: "length sample_iv = IV_LENGTH" by (simp add: sample_iv_def IV_LENGTH_def)
  from decryptData_encryptData [OF a b c] a b c d show ?thesis by blast
qed




end
